theory Spec2Isabelle
  imports Complex_Main "HOL-Library.Log_Nat"
begin

section \<open>The Codeforces recommender (ml/recommender.py)\<close>

text \<open>
  The class \<^verbatim>\<open>CodeforcesRecommender\<close> keeps a problem corpus (a pandas DataFrame), a fitted
  TF-IDF vectorizer, the problem feature matrix and a dictionary of user vectors, and
  mirrors the corpus and the user vectors in two JSON files. Every method is modelled as a
  function from the recommender's state to a result and the new state. What the outside
  world answers (the two Codeforces endpoints, the disk, the clock, the order in which the
  default sort of pandas leaves equal keys) is an argument of the function.

  The numbers of numpy are double-precision floats. The min-max scaling, whose result two
  properties bound, is modelled with the rounding of every operation (\<open>r64\<close>); the mean and
  the cosine similarity are taken in exact arithmetic, no property below depending on how
  they round.
\<close>

subsection \<open>Exceptions\<close>

datatype py_error = KeyError | AttributeError | TypeError | IndexError | ValueError | AxisError

subsection \<open>Data\<close>

text \<open>
  What a dictionary holds under a key that it may lack: nothing (the key is absent), JSON
  \<^verbatim>\<open>null\<close>, or a value. The columns of a DataFrame are the keys of the dictionaries it was
  built from: a column is absent when no dictionary has the key, and in a column that is
  there both a row without the key and a row with \<^verbatim>\<open>null\<close> hold a missing value, which
  \<^verbatim>\<open>fillna\<close> fills and which compares false with every number.
\<close>

datatype 'a cell = No_key | Null | Value 'a

text \<open>
  A row of \<^verbatim>\<open>problems_df\<close>. \<^verbatim>\<open>rating\<close> and \<^verbatim>\<open>solvedCount\<close> are the two columns whose
  missing values the code fills. \<^verbatim>\<open>tags_text\<close> is the column that
  \<^verbatim>\<open>create_tfidf_vectorizer\<close> and \<^verbatim>\<open>process_problem_features\<close> add to the frame, \<open>None\<close>
  in a row that does not have it; the dictionaries of the API do not carry it.
\<close>

record problem =
  contestId :: int
  index :: string
  name :: string
  tags :: "string list"
  rating :: "int cell"
  solvedCount :: "int cell"
  tags_text :: "string option"

text \<open>A row of the result: the problem with the two columns \<^verbatim>\<open>get_recommendations\<close> adds.\<close>

record recommendation = problem +
  similarity :: real
  problem_id :: string

text \<open>A value of the \<^verbatim>\<open>user_vectors\<close> dictionary: a list of numbers, or any other JSON value.\<close>

datatype cached = Cached_list "real list" | Cached_other

record recommender =
  problems_df :: "problem list option"
  tfidf_vectorizer :: "(string \<Rightarrow> real list) option"
  problem_vectors :: "real list list option"
  user_vectors :: "string \<rightharpoonup> cached"
  last_update :: real
  problems_file :: "problem list option"
  user_vectors_file :: "(string \<rightharpoonup> cached) option"

text \<open>
  The fitted vectorizer is the function that \<^verbatim>\<open>transform\<close> applies to the tag text of one
  problem. \<open>problems_file\<close> and \<open>user_vectors_file\<close> are the contents of
  \<^verbatim>\<open>PROBLEMS_PATH\<close> and \<^verbatim>\<open>USER_VECTORS_PATH\<close>, \<open>None\<close> while the file does not exist.
\<close>

subsection \<open>What the Codeforces API answers\<close>

datatype 'a fetched = Fetch_raises | Fetch_json 'a

record api_problem =
  p_contestId :: "int option"
  p_index :: string
  p_name :: string
  p_tags :: "string list"
  p_rating :: "int cell"

record api_statistic =
  s_contestId :: "int option"
  s_index :: string
  s_solvedCount :: "int cell"

record problemset_response =
  ps_status :: string
  ps_problems :: "api_problem list"
  ps_problemStatistics :: "api_statistic list option"

record submission =
  verdict :: "string option"
  sub_contestId :: "int option"
  sub_index :: string

record status_response =
  us_status :: string
  us_result :: "submission list"

text \<open>
  \<open>Fetch_raises\<close> stands for \<^verbatim>\<open>requests.get\<close> or \<^verbatim>\<open>response.json()\<close> raising. A key that
  the code reads with \<^verbatim>\<open>[...]\<close> is an option, \<open>None\<close> when the answer leaves it out, and
  reading it then raises \<^verbatim>\<open>KeyError\<close>; under these keys the answer holds a number or a
  string, and \<^verbatim>\<open>null\<close> is not modelled there. The rating of a problem and the solved count
  of a statistic, which end in the two filled columns, are cells.
\<close>

subsection \<open>The identity key of a problem\<close>

fun str_nat :: "nat \<Rightarrow> string" where
  "str_nat n =
     (if n < 10 then [''0123456789'' ! n]
      else str_nat (n div 10) @ [''0123456789'' ! (n mod 10)])"

declare str_nat.simps [simp del]

definition str_int :: "int \<Rightarrow> string" where
  "str_int i = (if i < 0 then CHR ''-'' # str_nat (nat (- i)) else str_nat (nat i))"

text \<open>The f-string \<^verbatim>\<open>f"{contestId}_{index}"\<close>.\<close>

definition problem_key :: "int \<Rightarrow> string \<Rightarrow> string" where
  "problem_key c i = str_int c @ ''_'' @ i"

subsection \<open>Double-precision arithmetic\<close>

text \<open>
  A double is a real number \<open>m * 2^e\<close> with \<open>|m| < 2^53\<close>. An operation of numpy returns the
  exact result rounded to the nearest double, ties to the even significand. The exponent
  is not bounded here: the values of the scaled columns are far from overflow and
  underflow.
\<close>

definition pow2 :: "int \<Rightarrow> real" where
  "pow2 e = (if 0 \<le> e then 2 ^ nat e else 1 / 2 ^ nat (- e))"

text \<open>The exponent \<open>e\<close> with \<open>2^e \<le> |x| < 2^(e+1)\<close>, for \<open>x \<noteq> 0\<close>.\<close>

definition binade :: "real \<Rightarrow> int" where
  "binade x =
     (let a = \<bar>x\<bar>
      in if 1 \<le> a then bitlen \<lfloor>a\<rfloor> - 1 else - bitlen (\<lceil>1 / a\<rceil> - 1))"

definition round_half_even :: "real \<Rightarrow> int" where
  "round_half_even x =
     (let f = \<lfloor>x\<rfloor>; d = x - of_int f
      in if d < 1 / 2 then f
         else if 1 / 2 < d then f + 1
         else if even f then f else f + 1)"

definition r64 :: "real \<Rightarrow> real" where
  "r64 x =
     (if x = 0 then 0
      else let e = binade x - 52
           in of_int (round_half_even (x / pow2 e)) * pow2 e)"

definition fadd :: "real \<Rightarrow> real \<Rightarrow> real" where
  "fadd x y = r64 (x + y)"

definition fsub :: "real \<Rightarrow> real \<Rightarrow> real" where
  "fsub x y = r64 (x - y)"

definition fmul :: "real \<Rightarrow> real \<Rightarrow> real" where
  "fmul x y = r64 (x * y)"

definition fdiv :: "real \<Rightarrow> real \<Rightarrow> real" where
  "fdiv x y = r64 (x / y)"

text \<open>An integer column converted to float64.\<close>

definition float64 :: "int \<Rightarrow> real" where
  "float64 i = r64 (of_int i)"

subsection \<open>\<^verbatim>\<open>fetch_problems\<close>\<close>

text \<open>
  The loop that fills \<^verbatim>\<open>stats_dict\<close>; a later statistic overwrites an earlier one.
  \<^verbatim>\<open>stat.get('solvedCount', 0)\<close> is 0 when the key is absent and what the key holds
  otherwise.
\<close>

fun stats_dict_of ::
  "api_statistic list \<Rightarrow> (string \<rightharpoonup> int cell) \<Rightarrow> py_error + (string \<rightharpoonup> int cell)" where
  "stats_dict_of [] d = Inr d"
| "stats_dict_of (s # ss) d =
     (case s_contestId s of
        None \<Rightarrow> Inl KeyError
      | Some c \<Rightarrow>
          stats_dict_of ss
            (d(problem_key c (s_index s) \<mapsto>
                 (case s_solvedCount s of No_key \<Rightarrow> Value 0 | held \<Rightarrow> held))))"

text \<open>The loop that adds \<^verbatim>\<open>solvedCount\<close> to every problem.\<close>

fun add_solved_count :: "(string \<rightharpoonup> int cell) \<Rightarrow> api_problem list \<Rightarrow> py_error + problem list" where
  "add_solved_count d [] = Inr []"
| "add_solved_count d (p # ps) =
     (case p_contestId p of
        None \<Rightarrow> Inl KeyError
      | Some c \<Rightarrow>
          (case add_solved_count d ps of
             Inl e \<Rightarrow> Inl e
           | Inr rest \<Rightarrow>
               Inr (\<lparr>contestId = c, index = p_index p, name = p_name p, tags = p_tags p,
                     rating = p_rating p,
                     solvedCount =
                       (case d (problem_key c (p_index p)) of None \<Rightarrow> Value 0 | Some k \<Rightarrow> k),
                     tags_text = None\<rparr>
                    # rest)))"

text \<open>
  \<open>reply\<close> is the answer of \<^verbatim>\<open>problemset.problems\<close>, \<open>disk_ok\<close> tells whether
  \<^verbatim>\<open>open(PROBLEMS_PATH, 'w')\<close> succeeds, \<open>now\<close> is \<^verbatim>\<open>time.time()\<close>. Every exception
  is caught and turned into \<^verbatim>\<open>False\<close>.
\<close>

definition fetch_problems ::
  "problemset_response fetched \<Rightarrow> bool \<Rightarrow> real \<Rightarrow> recommender \<Rightarrow> bool \<times> recommender" where
  "fetch_problems reply disk_ok now st =
     (case reply of
        Fetch_raises \<Rightarrow> (False, st)
      | Fetch_json data \<Rightarrow>
          if ps_status data = ''OK'' then
            (case stats_dict_of
                    (case ps_problemStatistics data of None \<Rightarrow> [] | Some ss \<Rightarrow> ss) Map.empty of
               Inl e \<Rightarrow> (False, st)
             | Inr stats_dict \<Rightarrow>
                 (case add_solved_count stats_dict (ps_problems data) of
                    Inl e \<Rightarrow> (False, st)
                  | Inr problems \<Rightarrow>
                      let st1 = st\<lparr>problems_df := Some problems\<rparr>
                      in if disk_ok
                         then (True, st1\<lparr>problems_file := Some problems, last_update := now\<rparr>)
                         else (False, st1)))
          else (False, st))"

subsection \<open>\<^verbatim>\<open>process_problem_features\<close>\<close>

text \<open>\<^verbatim>\<open>' '.join(x)\<close>.\<close>

fun join_space :: "string list \<Rightarrow> string" where
  "join_space [] = []"
| "join_space [t] = t"
| "join_space (t # ts) = t @ '' '' @ join_space ts"

text \<open>
  \<^verbatim>\<open>if 'tags_text' not in self.problems_df.columns\<close>: the column is computed from \<^verbatim>\<open>tags\<close>
  and added to \<^verbatim>\<open>problems_df\<close> when no row has it, and left as it is otherwise.
\<close>

definition ensure_tags_text :: "problem list \<Rightarrow> problem list" where
  "ensure_tags_text df =
     (if list_all (\<lambda>p. tags_text p = None) df
      then map (\<lambda>p. p\<lparr>tags_text := Some (join_space (tags p))\<rparr>) df
      else df)"

text \<open>\<^verbatim>\<open>df[key]\<close>: the column, or \<^verbatim>\<open>KeyError\<close> when no row has the key.\<close>

definition column :: "('r \<Rightarrow> 'a cell) \<Rightarrow> 'r list \<Rightarrow> py_error + 'a cell list" where
  "column key df = (if list_all (\<lambda>p. key p = No_key) df then Inl KeyError else Inr (map key df))"

text \<open>\<^verbatim>\<open>fillna(v)\<close> on one cell of a column: a missing value becomes \<open>v\<close>.\<close>

definition fillna :: "'a \<Rightarrow> 'a cell \<Rightarrow> 'a" where
  "fillna v x = (case x of Value y \<Rightarrow> y | _ \<Rightarrow> v)"

text \<open>
  scikit-learn replaces a range below ten machine epsilons by 1 (the range of a constant
  column is 0; releases before 0.24 test for 0, which is the same on columns of integers).
\<close>

definition handle_zeros_in_scale :: "real \<Rightarrow> real" where
  "handle_zeros_in_scale s = (if s < 10 * pow2 (- 52) then 1 else s)"

text \<open>
  \<^verbatim>\<open>MinMaxScaler().fit_transform\<close> on one column, with \<^verbatim>\<open>feature_range = (0, 1)\<close>:
  \<^verbatim>\<open>scale_ = 1 / range\<close>, \<^verbatim>\<open>min_ = 0 - data_min * scale_\<close>, then \<^verbatim>\<open>X *= scale_; X += min_\<close>.
  An empty column is refused.
\<close>

definition MinMaxScaler_fit_transform :: "real list \<Rightarrow> py_error + real list" where
  "MinMaxScaler_fit_transform X =
     (if X = [] then Inl ValueError
      else let data_min = Min (set X);
               data_max = Max (set X);
               data_range = fsub data_max data_min;
               scale = fdiv 1 (handle_zeros_in_scale data_range);
               min' = fsub 0 (fmul data_min scale)
           in Inr (map (\<lambda>x. fadd (fmul x scale) min') X))"

text \<open>\<^verbatim>\<open>np.hstack\<close> of the tag matrix and the two scaled columns.\<close>

definition hstack :: "real list list \<Rightarrow> real list \<Rightarrow> real list \<Rightarrow> real list list" where
  "hstack T R S = map (\<lambda>(t, r, s). t @ [r, s]) (zip T (zip R S))"

text \<open>
  A frame without rows has no column, and reading \<^verbatim>\<open>tags\<close> raises. The column
  \<^verbatim>\<open>tags_text\<close> is added to \<^verbatim>\<open>problems_df\<close> itself, before anything else can raise.
  \<^verbatim>\<open>transform\<close> refuses a missing value among the texts. The two \<^verbatim>\<open>fillna\<close> return new
  columns: the frame keeps its missing values.
\<close>

definition process_problem_features :: "recommender \<Rightarrow> (py_error + bool) \<times> recommender" where
  "process_problem_features st =
     (case (problems_df st, tfidf_vectorizer st) of
        (Some df0, Some vectorizer) \<Rightarrow>
          if df0 = [] then (Inl KeyError, st)
          else
            let df = ensure_tags_text df0;
                st1 = st\<lparr>problems_df := Some df\<rparr>
            in if list_ex (\<lambda>p. tags_text p = None) df then (Inl ValueError, st1)
               else
                 let tags_tfidf = map (\<lambda>p. vectorizer (the (tags_text p))) df
                 in (case column rating df of
                       Inl e \<Rightarrow> (Inl e, st1)
                     | Inr rating_column \<Rightarrow>
                         (case MinMaxScaler_fit_transform
                                 (map (\<lambda>v. float64 (fillna 1500 v)) rating_column) of
                            Inl e \<Rightarrow> (Inl e, st1)
                          | Inr ratings_scaled \<Rightarrow>
                              (case column solvedCount df of
                                 Inl e \<Rightarrow> (Inl e, st1)
                               | Inr solved_column \<Rightarrow>
                                   (case MinMaxScaler_fit_transform
                                           (map (\<lambda>v. float64 (fillna 0 v)) solved_column) of
                                      Inl e \<Rightarrow> (Inl e, st1)
                                    | Inr solved_scaled \<Rightarrow>
                                        (Inr True,
                                         st1\<lparr>problem_vectors :=
                                               Some (hstack tags_tfidf ratings_scaled
                                                       solved_scaled)\<rparr>)))))
      | _ \<Rightarrow> (Inr False, st))"

text \<open>The two scaled entries of a row of the feature matrix: its last two.\<close>

definition scaled_rating :: "real list \<Rightarrow> real" where
  "scaled_rating row = row ! (length row - 2)"

definition scaled_solved :: "real list \<Rightarrow> real" where
  "scaled_solved row = row ! (length row - 1)"

subsection \<open>\<^verbatim>\<open>create_user_vector\<close>\<close>

text \<open>The list comprehension \<^verbatim>\<open>[sub for sub in submissions if sub['verdict'] == 'OK']\<close>.\<close>

fun accepted_submissions :: "submission list \<Rightarrow> py_error + submission list" where
  "accepted_submissions [] = Inr []"
| "accepted_submissions (sub # subs) =
     (case verdict sub of
        None \<Rightarrow> Inl KeyError
      | Some v \<Rightarrow>
          (case accepted_submissions subs of
             Inl e \<Rightarrow> Inl e
           | Inr rest \<Rightarrow> Inr (if v = ''OK'' then sub # rest else rest)))"

fun problem_ids :: "submission list \<Rightarrow> py_error + string list" where
  "problem_ids [] = Inr []"
| "problem_ids (sub # subs) =
     (case sub_contestId sub of
        None \<Rightarrow> Inl KeyError
      | Some c \<Rightarrow>
          (case problem_ids subs of
             Inl e \<Rightarrow> Inl e
           | Inr rest \<Rightarrow> Inr (problem_key c (sub_index sub) # rest)))"

text \<open>The set \<^verbatim>\<open>solved_problems\<close> built from the submissions of an answer.\<close>

definition solved_problems_of :: "submission list \<Rightarrow> py_error + string set" where
  "solved_problems_of submissions =
     (case accepted_submissions submissions of
        Inl e \<Rightarrow> Inl e
      | Inr acc \<Rightarrow> (case problem_ids acc of Inl e \<Rightarrow> Inl e | Inr ids \<Rightarrow> Inr (set ids)))"

text \<open>\<^verbatim>\<open>np.mean(M, axis=0)\<close> of a matrix with at least one row.\<close>

definition np_mean_axis0 :: "real list list \<Rightarrow> real list" where
  "np_mean_axis0 M =
     (case M of
        [] \<Rightarrow> []
      | row # _ \<Rightarrow> map (\<lambda>j. (\<Sum>r\<leftarrow>M. r ! j) / of_nat (length M)) [0..<length row])"

text \<open>The positions of the rows of the corpus whose key is in the solved set.\<close>

definition problem_indices :: "problem list \<Rightarrow> string set \<Rightarrow> nat list" where
  "problem_indices df solved =
     filter (\<lambda>i. problem_key (contestId (df ! i)) (index (df ! i)) \<in> solved) [0..<length df]"

definition default_vector :: "recommender \<Rightarrow> py_error + real list" where
  "default_vector st =
     (case problem_vectors st of None \<Rightarrow> Inl AxisError | Some M \<Rightarrow> Inr (np_mean_axis0 M))"

definition user_vector_of :: "recommender \<Rightarrow> string set \<Rightarrow> py_error + real list" where
  "user_vector_of st solved =
     (if solved = {} then default_vector st
      else (case problems_df st of
              None \<Rightarrow> Inl AttributeError
            | Some df \<Rightarrow>
                let idx = problem_indices df solved
                in if idx = [] then default_vector st
                   else (case problem_vectors st of
                           None \<Rightarrow> Inl TypeError
                         | Some M \<Rightarrow>
                             if list_ex (\<lambda>i. length M \<le> i) idx then Inl IndexError
                             else Inr (np_mean_axis0 (map (\<lambda>i. M ! i) idx)))))"

text \<open>
  \<open>reply\<close> is the answer of \<^verbatim>\<open>user.status\<close>, \<open>disk_ok\<close> tells whether
  \<^verbatim>\<open>open(USER_VECTORS_PATH, 'w')\<close> succeeds. The whole body is inside \<^verbatim>\<open>try\<close>, and an
  exception makes the method return \<^verbatim>\<open>None\<close>.
\<close>

definition create_user_vector ::
  "status_response fetched \<Rightarrow> bool \<Rightarrow> recommender \<Rightarrow> string \<Rightarrow> real list option \<times> recommender" where
  "create_user_vector reply disk_ok st user_handle =
     (case reply of
        Fetch_raises \<Rightarrow> (None, st)
      | Fetch_json data \<Rightarrow>
          if us_status data \<noteq> ''OK'' then (None, st)
          else (case solved_problems_of (us_result data) of
                  Inl e \<Rightarrow> (None, st)
                | Inr solved_problems \<Rightarrow>
                    (case user_vector_of st solved_problems of
                       Inl e \<Rightarrow> (None, st)
                     | Inr user_vector \<Rightarrow>
                         let st1 = st\<lparr>user_vectors :=
                                        (user_vectors st)(user_handle \<mapsto> Cached_list user_vector)\<rparr>
                         in if disk_ok
                            then (Some user_vector,
                                  st1\<lparr>user_vectors_file := Some (user_vectors st1)\<rparr>)
                            else (None, st1))))"

subsection \<open>\<^verbatim>\<open>get_recommendations\<close>\<close>

definition dot :: "real list \<Rightarrow> real list \<Rightarrow> real" where
  "dot u v = (\<Sum>(x, y)\<leftarrow>zip u v. x * y)"

definition row_norm :: "real list \<Rightarrow> real" where
  "row_norm v = sqrt (\<Sum>x\<leftarrow>v. x * x)"

text \<open>
  \<^verbatim>\<open>sklearn.preprocessing.normalize\<close> divides a row by its norm, after the helper that the
  scaler uses has replaced a norm below ten machine epsilons by 1: a row of norm zero is
  divided by 1.
\<close>

definition normalize_row :: "real list \<Rightarrow> real list" where
  "normalize_row v = (let norms = handle_zeros_in_scale (row_norm v) in map (\<lambda>x. x / norms) v)"

text \<open>
  \<^verbatim>\<open>cosine_similarity([user_vector], Y)[0]\<close>: the dot products of the normalised rows. With
  \<^verbatim>\<open>Y = None\<close> scikit-learn compares the first argument with itself. It raises
  \<^verbatim>\<open>ValueError\<close> for an argument with no row or no column and for arguments of different
  width.
\<close>

definition cosine_similarity :: "real list \<Rightarrow> real list list option \<Rightarrow> py_error + real list" where
  "cosine_similarity user_vector Y =
     (if user_vector = [] then Inl ValueError
      else (case Y of
              None \<Rightarrow> Inr [dot (normalize_row user_vector) (normalize_row user_vector)]
            | Some M \<Rightarrow>
                if M = [] \<or> list_ex (\<lambda>row. length row \<noteq> length user_vector) M
                then Inl ValueError
                else Inr (map (\<lambda>row. dot (normalize_row user_vector) (normalize_row row)) M)))"

definition with_similarity :: "problem \<Rightarrow> real \<Rightarrow> recommendation" where
  "with_similarity p s =
     \<lparr>contestId = contestId p, index = index p, name = name p, tags = tags p,
      rating = rating p, solvedCount = solvedCount p, tags_text = tags_text p,
      similarity = s, problem_id = problem_key (contestId p) (index p)\<rparr>"

text \<open>
  \<^verbatim>\<open>sort_values('similarity', ascending=False)\<close> sorts with pandas' default
  \<^verbatim>\<open>kind='quicksort'\<close>, which pandas documents as not stable: the rows come out by
  descending key, and the order of rows with equal keys is left to the sorting routine of
  numpy. \<open>tie\<close> is that order: the rank the routine gives to each position of the frame
  among rows of equal key.
\<close>

definition sort_values_desc :: "(nat \<Rightarrow> nat) \<Rightarrow> recommendation list \<Rightarrow> recommendation list" where
  "sort_values_desc tie rows =
     map snd
       (sort_key (\<lambda>(i, r). - similarity r)
          (sort_key (\<lambda>(i, r). tie i) (enumerate 0 rows)))"

text \<open>\<^verbatim>\<open>df.head(n)\<close>: the first \<open>n\<close> rows, or all but the last \<open>-n\<close> when \<open>n\<close> is negative.\<close>

definition head_rows :: "int \<Rightarrow> 'a list \<Rightarrow> 'a list" where
  "head_rows n rows =
     (if 0 \<le> n then take (nat n) rows else take (length rows - nat (- n)) rows)"

text \<open>A comparison of the \<^verbatim>\<open>rating\<close> column with a bound; a missing value compares false.\<close>

definition rating_ge :: "int \<Rightarrow> 'a problem_scheme \<Rightarrow> bool" where
  "rating_ge b r = (case rating r of Value v \<Rightarrow> b \<le> v | _ \<Rightarrow> False)"

definition rating_le :: "int \<Rightarrow> 'a problem_scheme \<Rightarrow> bool" where
  "rating_le b r = (case rating r of Value v \<Rightarrow> v \<le> b | _ \<Rightarrow> False)"

text \<open>\<^verbatim>\<open>any(tag in x for tag in tags)\<close>.\<close>

definition any_tag_in :: "string list \<Rightarrow> 'a problem_scheme \<Rightarrow> bool" where
  "any_tag_in ts r = list_ex (\<lambda>tag. tag \<in> set (tags r)) ts"

text \<open>The set \<^verbatim>\<open>solved_problems\<close> of \<^verbatim>\<open>get_recommendations\<close>: empty when the fetch fails.\<close>

definition fetch_solved_problems :: "status_response fetched \<Rightarrow> string set" where
  "fetch_solved_problems reply =
     (case reply of
        Fetch_raises \<Rightarrow> {}
      | Fetch_json data \<Rightarrow>
          if us_status data \<noteq> ''OK'' then {}
          else (case solved_problems_of (us_result data) of Inl e \<Rightarrow> {} | Inr s \<Rightarrow> s))"

text \<open>A filter that is applied when its argument is not \<^verbatim>\<open>None\<close>.\<close>

fun filter_if_given :: "('b \<Rightarrow> 'a \<Rightarrow> bool) \<Rightarrow> 'b option \<Rightarrow> 'a list \<Rightarrow> 'a list" where
  "filter_if_given P None rows = rows"
| "filter_if_given P (Some b) rows = filter (P b) rows"

text \<open>
  The filters, the sort and the cut, on the frame with its two new columns. \<open>has_rating\<close>
  tells whether the frame has a \<^verbatim>\<open>rating\<close> column. On a frame that has no row left,
  \<^verbatim>\<open>recommendations_df['tags'].apply(...)\<close> is an empty Series that is not of booleans;
  pandas takes it for a list of column labels, the frame that comes out of the tags filter
  has no column, and \<^verbatim>\<open>sort_values('similarity')\<close> raises \<^verbatim>\<open>KeyError\<close>.
\<close>

definition filter_and_rank ::
  "(nat \<Rightarrow> nat) \<Rightarrow> bool \<Rightarrow> string set \<Rightarrow> int \<Rightarrow> int option \<Rightarrow> int option \<Rightarrow> string list option \<Rightarrow>
   recommendation list \<Rightarrow> py_error + recommendation list" where
  "filter_and_rank tie has_rating solved_problems n_recommendations min_rating max_rating
     tags_wanted df0 =
     (let df1 = filter (\<lambda>r. problem_id r \<notin> solved_problems) df0
      in if (min_rating \<noteq> None \<or> max_rating \<noteq> None) \<and> \<not> has_rating then Inl KeyError
         else
           let df2 = filter_if_given rating_ge min_rating df1;
               df3 = filter_if_given rating_le max_rating df2
           in if tags_wanted \<noteq> None \<and> df3 = [] then Inl KeyError
              else
                let df4 = filter_if_given any_tag_in tags_wanted df3
                in Inr (head_rows n_recommendations (sort_values_desc tie df4)))"

text \<open>
  The list cached for a handle: \<^verbatim>\<open>user_handle in self.user_vectors and
  isinstance(self.user_vectors[user_handle], list)\<close>.
\<close>

definition cached_vector :: "recommender \<Rightarrow> string \<Rightarrow> real list option" where
  "cached_vector st user_handle =
     (case user_vectors st user_handle of
        Some (Cached_list l) \<Rightarrow> Some l
      | _ \<Rightarrow> None)"

text \<open>
  The first statement of \<^verbatim>\<open>get_recommendations\<close>: the cached list as it is, whatever its
  length, or else the vector that \<^verbatim>\<open>create_user_vector\<close> returns.
\<close>

definition get_or_create_user_vector ::
  "status_response fetched \<Rightarrow> bool \<Rightarrow> recommender \<Rightarrow> string \<Rightarrow> real list option \<times> recommender" where
  "get_or_create_user_vector reply_vector disk_ok st user_handle =
     (case cached_vector st user_handle of
        Some l \<Rightarrow> (Some l, st)
      | None \<Rightarrow> create_user_vector reply_vector disk_ok st user_handle)"

text \<open>
  \<open>reply_vector\<close> is the answer of \<^verbatim>\<open>user.status\<close> to \<^verbatim>\<open>create_user_vector\<close> (asked only when
  no list is cached for the handle), \<open>reply\<close> the answer to the request of
  \<^verbatim>\<open>get_recommendations\<close> itself. Nothing after the user vector is inside \<^verbatim>\<open>try\<close> but that
  request, so the exceptions of the rest reach the caller.
\<close>

definition get_recommendations ::
  "(nat \<Rightarrow> nat) \<Rightarrow> status_response fetched \<Rightarrow> status_response fetched \<Rightarrow> bool \<Rightarrow>
   recommender \<Rightarrow> string \<Rightarrow> int \<Rightarrow> int option \<Rightarrow> int option \<Rightarrow> string list option \<Rightarrow>
   (py_error + recommendation list) \<times> recommender" where
  "get_recommendations tie reply_vector reply disk_ok st user_handle n_recommendations
     min_rating max_rating tags_wanted =
     (let (vector, st1) = get_or_create_user_vector reply_vector disk_ok st user_handle
      in case vector of
           None \<Rightarrow> (Inr [], st1)
         | Some user_vector \<Rightarrow>
             (case cosine_similarity user_vector (problem_vectors st1) of
                Inl e \<Rightarrow> (Inl e, st1)
              | Inr similarity_scores \<Rightarrow>
                  let solved_problems = fetch_solved_problems reply
                  in (case problems_df st1 of
                        None \<Rightarrow> (Inl AttributeError, st1)
                      | Some df \<Rightarrow>
                          if length similarity_scores \<noteq> length df then (Inl ValueError, st1)
                          else
                            (filter_and_rank tie (list_ex (\<lambda>p. rating p \<noteq> No_key) df)
                               solved_problems n_recommendations min_rating max_rating
                               tags_wanted (map2 with_similarity df similarity_scores),
                             st1))))"

subsection \<open>The failures of the two fetches\<close>

text \<open>A refresh fails when the request raises or the answer's status is not \<^verbatim>\<open>OK\<close>.\<close>

definition refresh_fails :: "problemset_response fetched \<Rightarrow> bool" where
  "refresh_fails reply =
     (case reply of Fetch_raises \<Rightarrow> True | Fetch_json data \<Rightarrow> ps_status data \<noteq> ''OK'')"

definition status_fails :: "status_response fetched \<Rightarrow> bool" where
  "status_fails reply =
     (case reply of Fetch_raises \<Rightarrow> True | Fetch_json data \<Rightarrow> us_status data \<noteq> ''OK'')"

subsection \<open>A small recommender\<close>

text \<open>
  Three problems, the third without a rating, in a frame that has its \<^verbatim>\<open>tags_text\<close>
  column, and a user with a cached vector.
\<close>

definition problem_A :: problem where
  "problem_A = \<lparr>contestId = 1, index = ''A'', name = ''Sums'', tags = [''math''],
                 rating = Value 800, solvedCount = Value 1, tags_text = Some ''math''\<rparr>"

definition problem_B :: problem where
  "problem_B = \<lparr>contestId = 2, index = ''B'', name = ''Paths'', tags = [''dp''],
                 rating = Value 1200, solvedCount = Value 6, tags_text = Some ''dp''\<rparr>"

definition problem_C :: problem where
  "problem_C = \<lparr>contestId = 3, index = ''C'', name = ''Tilings'', tags = [''math'', ''dp''],
                 rating = No_key, solvedCount = Value 6, tags_text = Some ''math dp''\<rparr>"

text \<open>The three problems as \<^verbatim>\<open>fetch_problems\<close> writes them to the file, without \<^verbatim>\<open>tags_text\<close>.\<close>

definition corpus_file :: "problem list" where
  "corpus_file = map (\<lambda>p. p\<lparr>tags_text := None\<rparr>) [problem_A, problem_B, problem_C]"

definition demo_vectorizer :: "string \<Rightarrow> real list" where
  "demo_vectorizer text = [if text = ''math'' then 1 else 0]"

definition demo_state :: recommender where
  "demo_state =
     \<lparr>problems_df = Some [problem_A, problem_B, problem_C],
      tfidf_vectorizer = Some demo_vectorizer,
      problem_vectors = Some [[1, 0, 0], [0, 1, 0], [0, 1, 0]],
      user_vectors = [''tourist'' \<mapsto> Cached_list [1, 0, 0]],
      last_update = 0,
      problems_file = Some corpus_file,
      user_vectors_file = Some [''tourist'' \<mapsto> Cached_list [1, 0, 0]]\<rparr>"

text \<open>An answer of \<^verbatim>\<open>user.status\<close>: problem 1A accepted, problem 2B tried.\<close>

definition solved_A :: "status_response fetched" where
  "solved_A =
     Fetch_json
       \<lparr>us_status = ''OK'',
        us_result =
          [\<lparr>verdict = Some ''OK'', sub_contestId = Some 1, sub_index = ''A''\<rparr>,
           \<lparr>verdict = Some ''WRONG_ANSWER'', sub_contestId = Some 2, sub_index = ''B''\<rparr>]\<rparr>"

text \<open>An answer of \<^verbatim>\<open>user.status\<close> for a user whose only accepted problem is not in the corpus.\<close>

definition solved_Z :: "status_response fetched" where
  "solved_Z =
     Fetch_json
       \<lparr>us_status = ''OK'',
        us_result = [\<lparr>verdict = Some ''OK'', sub_contestId = Some 9, sub_index = ''Z''\<rparr>]\<rparr>"

text \<open>The feature matrix that \<^verbatim>\<open>process_problem_features\<close> computes for the three problems.\<close>

definition demo_matrix :: "real list list" where
  "demo_matrix =
     [[1, 0, 0],
      [0, 2573485501354569 / 4503599627370496, 4503599627370497 / 4503599627370496],
      [0, 1, 4503599627370497 / 4503599627370496]]"

text \<open>
  The recommender when \<^verbatim>\<open>initialize\<close> has read the corpus from its file and loaded the
  vectorizer: the frame has no \<^verbatim>\<open>tags_text\<close> column, and there is no feature matrix yet.
\<close>

definition loaded_state :: recommender where
  "loaded_state = demo_state\<lparr>problems_df := Some corpus_file, problem_vectors := None\<rparr>"

text \<open>
  The recommender with its feature matrix composed, and a list of two numbers cached for the
  user: a vector stored when the matrix had two columns.
\<close>

definition stale_state :: recommender where
  "stale_state =
     demo_state\<lparr>problem_vectors := Some demo_matrix,
                 user_vectors := [''tourist'' \<mapsto> Cached_list [1, 0]]\<rparr>"

text \<open>The same recommender with a vector of zeros cached for the user.\<close>

definition zero_vector_state :: recommender where
  "zero_vector_state =
     demo_state\<lparr>problem_vectors := Some demo_matrix,
                 user_vectors := [''tourist'' \<mapsto> Cached_list [0, 0, 0]]\<rparr>"

text \<open>Eighteen problems with one and the same feature vector, and so one and the same score.\<close>

definition equal_problem :: "int \<Rightarrow> problem" where
  "equal_problem c = \<lparr>contestId = c, index = ''A'', name = ''Sums'', tags = [''math''],
                        rating = Value 800, solvedCount = Value 1, tags_text = Some ''math''\<rparr>"

definition equal_problems :: "problem list" where
  "equal_problems =
     map equal_problem [1, 2, 3, 4, 5, 6, 7, 8, 9, 10, 11, 12, 13, 14, 15, 16, 17, 18]"

definition equal_state :: recommender where
  "equal_state =
     \<lparr>problems_df = Some equal_problems,
      tfidf_vectorizer = Some demo_vectorizer,
      problem_vectors = Some (map (\<lambda>p. [1, 0, 0]) equal_problems),
      user_vectors = [''tourist'' \<mapsto> Cached_list [1, 0, 0]],
      last_update = 0,
      problems_file = Some (map (\<lambda>p. p\<lparr>tags_text := None\<rparr>) equal_problems),
      user_vectors_file = Some [''tourist'' \<mapsto> Cached_list [1, 0, 0]]\<rparr>"

text \<open>
  The order in which an introsort leaves 18 equal keys. Up to 16 rows it sorts by
  insertion, which keeps equal keys in place; a longer range it first partitions around
  its middle row, swapping the rows that its two scans stop at, and equal keys stop both
  scans. pandas hands the reversed frame to the routine and reverses the result, and rows
  2 to 16 of the frame come out in reverse order.
\<close>

definition partition_tie :: "nat \<Rightarrow> nat" where
  "partition_tie i = (if 2 \<le> i \<and> i \<le> 16 then 18 - i else i)"

text \<open>A recommender whose corpus is the unrated problem alone.\<close>

definition unrated_state :: recommender where
  "unrated_state =
     \<lparr>problems_df = Some [problem_C],
      tfidf_vectorizer = Some demo_vectorizer,
      problem_vectors = None,
      user_vectors = Map.empty,
      last_update = 0,
      problems_file = Some [problem_C\<lparr>tags_text := None\<rparr>],
      user_vectors_file = None\<rparr>"

section \<open>Properties\<close>

subsection \<open>Evaluation\<close>

lemmas demo_defs = demo_state_def problem_A_def problem_B_def problem_C_def solved_A_def

lemmas run_defs = get_recommendations_def get_or_create_user_vector_def cached_vector_def
  cosine_similarity_def normalize_row_def handle_zeros_in_scale_def pow2_def row_norm_def dot_def
  fetch_solved_problems_def solved_problems_of_def
  problem_key_def str_int_def str_nat.simps filter_and_rank_def with_similarity_def
  sort_values_desc_def head_rows_def rating_ge_def rating_le_def any_tag_in_def enumerate_eq_zip

lemma solved_A_set: "fetch_solved_problems solved_A = {''1_A''}"
  by (simp add: fetch_solved_problems_def solved_A_def solved_problems_of_def problem_key_def
      str_int_def str_nat.simps)

subsection \<open>The rows of a recommendation\<close>

lemma set_sort_values_desc: "set (sort_values_desc tie rows) = set rows"
proof -
  have "set (sort_values_desc tie rows) = snd ` set (enumerate 0 rows)"
    by (simp add: sort_values_desc_def)
  also have "\<dots> = set (map snd (enumerate 0 rows))"
    by (simp only: set_map)
  also have "\<dots> = set rows"
    by (simp only: map_snd_enumerate)
  finally show ?thesis .
qed

lemma set_head_rows: "set (head_rows n rows) \<subseteq> set rows"
  by (auto simp: head_rows_def dest: in_set_takeD)

lemma set_filter_if_given: "set (filter_if_given P b rows) \<subseteq> set rows"
  by (cases b) auto

lemma filter_and_rank_rows:
  assumes "filter_and_rank tie hr solved n mn mx tg df0 = Inr recs" and "r \<in> set recs"
  shows "r \<in> set df0" and "problem_id r \<notin> solved"
    and "mn = Some b \<Longrightarrow> rating_ge b r"
    and "mx = Some b' \<Longrightarrow> rating_le b' r"
    and "tg = Some ts \<Longrightarrow> any_tag_in ts r"
proof -
  define df1 where "df1 = filter (\<lambda>r. problem_id r \<notin> solved) df0"
  define df2 where "df2 = filter_if_given rating_ge mn df1"
  define df3 where "df3 = filter_if_given rating_le mx df2"
  define df4 where "df4 = filter_if_given any_tag_in tg df3"
  from assms(1) have "recs = head_rows n (sort_values_desc tie df4)"
    by (simp add: filter_and_rank_def Let_def df1_def df2_def df3_def df4_def split: if_splits)
  with assms(2) set_head_rows [of n "sort_values_desc tie df4"] have r4: "r \<in> set df4"
    by (auto simp: set_sort_values_desc)
  then have r3: "r \<in> set df3"
    using set_filter_if_given [of any_tag_in tg df3] by (auto simp: df4_def)
  then have r2: "r \<in> set df2"
    using set_filter_if_given [of rating_le mx df2] by (auto simp: df3_def)
  then have r1: "r \<in> set df1"
    using set_filter_if_given [of rating_ge mn df1] by (auto simp: df2_def)
  then show "r \<in> set df0" and "problem_id r \<notin> solved"
    by (auto simp: df1_def)
  show "mn = Some b \<Longrightarrow> rating_ge b r"
    using r2 by (auto simp: df2_def)
  show "mx = Some b' \<Longrightarrow> rating_le b' r"
    using r3 by (auto simp: df3_def)
  show "tg = Some ts \<Longrightarrow> any_tag_in ts r"
    using r4 by (auto simp: df4_def)
qed

text \<open>A non-empty result comes out of \<open>filter_and_rank\<close> on the corpus of the final state.\<close>

lemma get_recommendations_frame:
  assumes "get_recommendations tie rv reply disk_ok st h n mn mx tg = (Inr recs, st')"
    and "recs \<noteq> []"
  obtains df scores where "problems_df st' = Some df" and "length scores = length df"
    and "filter_and_rank tie (list_ex (\<lambda>p. rating p \<noteq> No_key) df) (fetch_solved_problems reply)
           n mn mx tg (map2 with_similarity df scores) = Inr recs"
  using assms
  by (auto simp: get_recommendations_def Let_def
      split: prod.splits option.splits sum.splits if_splits)

lemma with_similarity_fields:
  "r \<in> set (map2 with_similarity df scores) \<Longrightarrow>
     problem_id r = problem_key (contestId r) (index r)"
  by (auto simp: with_similarity_def dest!: set_zip_leftD in_set_zipE)

subsection \<open>Exclusion of the solved problems\<close>

text \<open>
  C1. Whatever the user, the state and the request, no problem whose identity key
  \<^verbatim>\<open>contestId_index\<close> is in the solved set of the user appears in the list that
  \<^verbatim>\<open>get_recommendations\<close> returns. The solved set is the one the method builds from the
  answer of \<^verbatim>\<open>user.status\<close> (empty when that request fails).
\<close>

theorem solved_problems_never_recommended:
  assumes "get_recommendations tie reply_vector reply disk_ok st user_handle n mn mx tg
             = (Inr recs, st')"
    and "r \<in> set recs"
  shows "problem_key (contestId r) (index r) \<notin> fetch_solved_problems reply"
proof -
  from assms(2) have "recs \<noteq> []" by auto
  with assms(1) obtain df scores where
    fr: "filter_and_rank tie (list_ex (\<lambda>p. rating p \<noteq> No_key) df) (fetch_solved_problems reply)
           n mn mx tg (map2 with_similarity df scores) = Inr recs"
    by (rule get_recommendations_frame)
  from filter_and_rank_rows(1,2) [OF fr assms(2)] with_similarity_fields [of r df scores]
  show ?thesis by simp
qed

text \<open>The user solved 1A; the call returns 2B and 3C.\<close>

theorem solved_problems_never_recommended_witness:
  "get_recommendations id Fetch_raises solved_A True demo_state ''tourist'' 10 None None None
     = (Inr [with_similarity problem_B 0, with_similarity problem_C 0], demo_state)
   \<and> problem_key (contestId problem_A) (index problem_A) \<in> fetch_solved_problems solved_A
   \<and> problem_key (contestId (with_similarity problem_B 0)) (index (with_similarity problem_B 0))
       \<notin> fetch_solved_problems solved_A"
proof -
  have run: "get_recommendations id Fetch_raises solved_A True demo_state ''tourist'' 10
               None None None
     = (Inr [with_similarity problem_B 0, with_similarity problem_C 0], demo_state)"
    by (simp add: demo_defs run_defs)
  have "problem_key (contestId problem_A) (index problem_A) \<in> fetch_solved_problems solved_A"
    by (simp add: solved_A_set problem_A_def problem_key_def str_int_def str_nat.simps)
  with run solved_problems_never_recommended [OF run, of "with_similarity problem_B 0"]
  show ?thesis by simp
qed

subsection \<open>The filters\<close>

text \<open>
  C4. For every problem in the list that \<^verbatim>\<open>get_recommendations\<close> returns: when
  \<^verbatim>\<open>min_rating\<close> is given the problem has a rating and it is at least \<^verbatim>\<open>min_rating\<close>, when
  \<^verbatim>\<open>max_rating\<close> is given the problem has a rating and it is at most \<^verbatim>\<open>max_rating\<close>, and
  when tags are given the problem has one of them.
\<close>

theorem filters_hold_for_every_recommendation:
  assumes "get_recommendations tie reply_vector reply disk_ok st user_handle n mn mx tg
             = (Inr recs, st')"
    and "r \<in> set recs"
  shows "(\<forall>b. mn = Some b \<longrightarrow> (\<exists>v. rating r = Value v \<and> b \<le> v))
       \<and> (\<forall>b. mx = Some b \<longrightarrow> (\<exists>v. rating r = Value v \<and> v \<le> b))
       \<and> (\<forall>ts. tg = Some ts \<longrightarrow> set (tags r) \<inter> set ts \<noteq> {})"
proof -
  from assms(2) have "recs \<noteq> []" by auto
  with assms(1) obtain df scores where
    fr: "filter_and_rank tie (list_ex (\<lambda>p. rating p \<noteq> No_key) df) (fetch_solved_problems reply)
           n mn mx tg (map2 with_similarity df scores) = Inr recs"
    by (rule get_recommendations_frame)
  note rows = filter_and_rank_rows(3,4,5) [OF fr assms(2)]
  have "\<exists>v. rating r = Value v \<and> b \<le> v" if "mn = Some b" for b
    using rows(1) [OF that] by (auto simp: rating_ge_def split: cell.splits)
  moreover have "\<exists>v. rating r = Value v \<and> v \<le> b" if "mx = Some b" for b
    using rows(2) [OF that] by (auto simp: rating_le_def split: cell.splits)
  moreover have "set (tags r) \<inter> set ts \<noteq> {}" if "tg = Some ts" for ts
    using rows(3) [OF that] by (auto simp: any_tag_in_def list_ex_iff)
  ultimately show ?thesis by blast
qed

text \<open>Ratings from 1000 to 1300 and the tags dp or greedy: only 2B is returned.\<close>

theorem filters_hold_for_every_recommendation_witness:
  "get_recommendations id Fetch_raises Fetch_raises True demo_state ''tourist'' 10
       (Some 1000) (Some 1300) (Some [''dp'', ''greedy''])
     = (Inr [with_similarity problem_B 0], demo_state)
   \<and> rating (with_similarity problem_B 0) = Value 1200
   \<and> set (tags (with_similarity problem_B 0)) \<inter> set [''dp'', ''greedy''] \<noteq> {}"
proof -
  have run: "get_recommendations id Fetch_raises Fetch_raises True demo_state ''tourist'' 10
       (Some 1000) (Some 1300) (Some [''dp'', ''greedy''])
     = (Inr [with_similarity problem_B 0], demo_state)"
    by (simp add: demo_defs run_defs)
  from run filters_hold_for_every_recommendation [OF run, of "with_similarity problem_B 0"]
  show ?thesis by (simp add: with_similarity_def problem_B_def)
qed

subsection \<open>A user vector that cannot be obtained\<close>

text \<open>
  C6. When no list is cached for the handle and the request of \<^verbatim>\<open>create_user_vector\<close>
  raises or is answered with a status other than \<^verbatim>\<open>OK\<close>, \<^verbatim>\<open>create_user_vector\<close> returns
  \<^verbatim>\<open>None\<close> and \<^verbatim>\<open>get_recommendations\<close> returns the empty list: it raises nothing, and the
  state is as before.
\<close>

theorem unobtainable_vector_gives_empty:
  assumes "cached_vector st user_handle = None" and "status_fails reply_vector"
  shows "create_user_vector reply_vector disk_ok st user_handle = (None, st)
       \<and> get_recommendations tie reply_vector reply disk_ok st user_handle n mn mx tg
           = (Inr [], st)"
proof -
  from assms(2) have "create_user_vector reply_vector disk_ok st user_handle = (None, st)"
    by (auto simp: status_fails_def create_user_vector_def split: fetched.splits)
  with assms(1) show ?thesis
    by (simp add: get_recommendations_def get_or_create_user_vector_def)
qed

theorem unobtainable_vector_gives_empty_witness:
  "cached_vector demo_state ''petr'' = None \<and> status_fails Fetch_raises
   \<and> get_recommendations id Fetch_raises solved_A True demo_state ''petr'' 10 None None None
       = (Inr [], demo_state)"
proof -
  have c: "cached_vector demo_state ''petr'' = None"
    by (simp add: cached_vector_def demo_state_def)
  have f: "status_fails Fetch_raises"
    by (simp add: status_fails_def)
  from c f unobtainable_vector_gives_empty [OF c f, of True id solved_A 10 None None None]
  show ?thesis by simp
qed

subsection \<open>A refresh that fails\<close>

text \<open>
  C7. When the request of \<^verbatim>\<open>fetch_problems\<close> raises or is answered with a status other than
  \<^verbatim>\<open>OK\<close>, the method returns \<^verbatim>\<open>False\<close> and the state is the one before the call: the
  corpus in memory and the corpus on disk are untouched.
\<close>

theorem fetch_problems_failure_keeps_corpus:
  assumes "refresh_fails reply"
  shows "fetch_problems reply disk_ok now st = (False, st)"
  using assms by (auto simp: refresh_fails_def fetch_problems_def split: fetched.splits)

theorem fetch_problems_failure_keeps_corpus_witness:
  "refresh_fails
     (Fetch_json \<lparr>ps_status = ''FAILED'', ps_problems = [], ps_problemStatistics = None\<rparr>)
   \<and> fetch_problems
       (Fetch_json \<lparr>ps_status = ''FAILED'', ps_problems = [], ps_problemStatistics = None\<rparr>)
       True 1 demo_state = (False, demo_state)"
proof -
  have f: "refresh_fails
     (Fetch_json \<lparr>ps_status = ''FAILED'', ps_problems = [], ps_problemStatistics = None\<rparr>)"
    by (simp add: refresh_fails_def)
  from f fetch_problems_failure_keeps_corpus [OF f, of True 1 demo_state]
  show ?thesis by simp
qed

subsection \<open>The default profile\<close>

text \<open>
  C3. When the request of \<^verbatim>\<open>create_user_vector\<close> is answered with status \<^verbatim>\<open>OK\<close> and the
  solved set built from the answer is empty, or none of its keys is the key of a problem of
  the corpus, the user vector is the column-wise mean of the whole feature matrix: it is
  stored under the handle, and it is returned when the file of user vectors can be written.
\<close>

theorem default_profile_is_corpus_mean:
  assumes "reply = Fetch_json data" and "us_status data = ''OK''"
    and "solved_problems_of (us_result data) = Inr solved"
    and "problem_vectors st = Some M"
    and "solved = {} \<or> (\<exists>df. problems_df st = Some df
           \<and> (\<forall>p\<in>set df. problem_key (contestId p) (index p) \<notin> solved))"
  shows "fst (create_user_vector reply disk_ok st user_handle)
           = (if disk_ok then Some (np_mean_axis0 M) else None)
       \<and> user_vectors (snd (create_user_vector reply disk_ok st user_handle)) user_handle
           = Some (Cached_list (np_mean_axis0 M))"
proof -
  have "user_vector_of st solved = Inr (np_mean_axis0 M)"
  proof (cases "solved = {}")
    case True
    with assms(4) show ?thesis
      by (simp add: user_vector_of_def default_vector_def)
  next
    case False
    with assms(5) obtain df where df: "problems_df st = Some df"
      and un: "\<forall>p\<in>set df. problem_key (contestId p) (index p) \<notin> solved"
      by blast
    from un have "problem_indices df solved = []"
      by (auto simp: problem_indices_def filter_empty_conv)
    with False df assms(4) show ?thesis
      by (simp add: user_vector_of_def default_vector_def)
  qed
  with assms(1,2,3) show ?thesis
    by (simp add: create_user_vector_def Let_def)
qed

lemma demo_mean: "np_mean_axis0 [[1, 0, 0], [0, 1, 0], [0, 1, 0]] = [1 / 3, 2 / 3, 0]"
  by (simp add: np_mean_axis0_def)

text \<open>The user solved 9Z only, which the corpus does not have.\<close>

theorem default_profile_is_corpus_mean_witness:
  "fst (create_user_vector solved_Z True demo_state ''petr'') = Some [1 / 3, 2 / 3, 0]
   \<and> solved_problems_of [\<lparr>verdict = Some ''OK'', sub_contestId = Some 9, sub_index = ''Z''\<rparr>]
       = Inr {''9_Z''}"
proof -
  let ?data = "\<lparr>us_status = ''OK'',
        us_result = [\<lparr>verdict = Some ''OK'', sub_contestId = Some 9, sub_index = ''Z''\<rparr>]\<rparr>"
  have s: "solved_problems_of (us_result ?data) = Inr {''9_Z''}"
    by (simp add: solved_problems_of_def problem_key_def str_int_def str_nat.simps)
  have m: "problem_vectors demo_state = Some [[1, 0, 0], [0, 1, 0], [0, 1, 0]]"
    by (simp add: demo_state_def)
  have u: "{''9_Z''} = {} \<or> (\<exists>df. problems_df demo_state = Some df
           \<and> (\<forall>p\<in>set df. problem_key (contestId p) (index p) \<notin> {''9_Z''}))"
    by (simp add: demo_defs problem_key_def str_int_def str_nat.simps)
  have r: "solved_Z = Fetch_json ?data"
    by (simp add: solved_Z_def)
  have ok: "us_status ?data = ''OK''"
    by simp
  from default_profile_is_corpus_mean [OF r ok s m u, of True "''petr''"] s
  show ?thesis by (simp add: demo_mean)
qed

subsection \<open>The order of the recommendations\<close>

lemma sorted_sort_values_desc:
  "sorted_wrt (\<lambda>a b. similarity b \<le> similarity a) (sort_values_desc tie rows)"
proof -
  let ?xs = "sort_key (\<lambda>(i, r). - similarity r)
               (sort_key (\<lambda>(i, r). tie i) (enumerate 0 rows))"
  have "sorted (map (\<lambda>(i, r). - similarity r) ?xs)"
    by (rule sorted_sort_key)
  then have "sorted_wrt (\<lambda>a b. similarity b \<le> similarity a) (map snd ?xs)"
    by (simp add: sorted_wrt_map sorted_map case_prod_beta)
  then show ?thesis
    by (simp add: sort_values_desc_def)
qed

lemma sorted_head_rows: "sorted_wrt P rows \<Longrightarrow> sorted_wrt P (head_rows n rows)"
  by (simp add: head_rows_def sorted_wrt_take)

text \<open>
  C2, as far as it holds: the list that \<^verbatim>\<open>get_recommendations\<close> returns is sorted by
  descending similarity, whatever order the sorting routine gives to equal keys.
\<close>

theorem recommendations_sorted_descending:
  assumes "get_recommendations tie reply_vector reply disk_ok st user_handle n mn mx tg
             = (Inr recs, st')"
  shows "sorted_wrt (\<lambda>a b. similarity b \<le> similarity a) recs"
proof (cases "recs = []")
  case True
  then show ?thesis by simp
next
  case False
  with assms obtain df scores where
    fr: "filter_and_rank tie (list_ex (\<lambda>p. rating p \<noteq> No_key) df) (fetch_solved_problems reply)
           n mn mx tg (map2 with_similarity df scores) = Inr recs"
    by (rule get_recommendations_frame)
  then show ?thesis
    by (auto simp: filter_and_rank_def Let_def sorted_head_rows sorted_sort_values_desc
        split: if_splits)
qed

theorem recommendations_sorted_descending_witness:
  "get_recommendations id Fetch_raises Fetch_raises True demo_state ''tourist'' 2 None None None
     = (Inr [with_similarity problem_A 1, with_similarity problem_B 0], demo_state)
   \<and> sorted_wrt (\<lambda>a b. similarity b \<le> similarity a)
        [with_similarity problem_A 1, with_similarity problem_B 0]"
proof -
  have run: "get_recommendations id Fetch_raises Fetch_raises True demo_state ''tourist'' 2
               None None None
     = (Inr [with_similarity problem_A 1, with_similarity problem_B 0], demo_state)"
    by (simp add: demo_defs run_defs)
  from run recommendations_sorted_descending [OF run] show ?thesis by simp
qed

text \<open>When all scores are equal, the rows come out in the order of \<open>tie\<close>.\<close>

lemma insort_key_map: "insort_key f (g x) (map g ys) = map g (insort_key (f \<circ> g) x ys)"
  by (induction ys) simp_all

lemma sort_key_map: "sort_key f (map g xs) = map g (sort_key (f \<circ> g) xs)"
  by (induction xs) (simp_all add: insort_key_map comp_def)

lemma sorted_map_const: "\<forall>x\<in>set xs. f x = c \<Longrightarrow> sorted (map f xs)"
  by (induction xs) simp_all

lemma enumerate_nth: "enumerate 0 rows = map (\<lambda>i. (i, rows ! i)) [0..<length rows]"
  by (rule nth_equalityI) (simp_all add: nth_enumerate_eq)

lemma sort_values_desc_equal:
  assumes "\<forall>r\<in>set rows. similarity r = c"
  shows "sort_values_desc tie rows = map (\<lambda>i. rows ! i) (sort_key tie [0..<length rows])"
proof -
  let ?byt = "sort_key (\<lambda>(i, r). tie i) (enumerate 0 rows)"
  have t: "?byt = map (\<lambda>i. (i, rows ! i)) (sort_key tie [0..<length rows])"
    by (simp add: enumerate_nth sort_key_map comp_def)
  have "snd x \<in> set rows" if "x \<in> set ?byt" for x
  proof -
    from that have "x \<in> set (enumerate 0 rows)" by simp
    then have "fst x < length rows" and "rows ! fst x = snd x"
      by (simp_all add: in_set_enumerate_eq)
    then show ?thesis by (metis nth_mem)
  qed
  with assms have "\<forall>x\<in>set ?byt. (\<lambda>(i, r). - similarity r) x = - c"
    by (auto simp: case_prod_beta)
  then have "sorted (map (\<lambda>(i, r). - similarity r) ?byt)"
    by (rule sorted_map_const)
  then have "sort_key (\<lambda>(i, r). - similarity r) ?byt = ?byt"
    by (rule sort_key_id_if_sorted)
  then show ?thesis
    by (simp add: sort_values_desc_def t comp_def)
qed

lemma upt18: "[0..<18] = [0, 1, 2, 3, 4, 5, 6, 7, 8, 9, 10, 11, 12, 13, 14, 15, 16, 17::nat]"
  by code_simp

lemma partition_tie_order:
  "sort_key partition_tie [0..<18]
     = [0, 1, 16, 15, 14, 13, 12, 11, 10, 9, 8, 7, 6, 5, 4, 3, 2, 17]"
  by (simp only: upt18) (simp add: partition_tie_def)

lemma equal_scores:
  "cosine_similarity [1, 0, 0] (Some (map (\<lambda>p. [1, 0, 0]) equal_problems))
     = Inr (map (\<lambda>p. 1) equal_problems)"
  by (simp add: cosine_similarity_def list_ex_iff normalize_row_def handle_zeros_in_scale_def
      pow2_def row_norm_def dot_def equal_problems_def)

lemma equal_frame:
  "map2 with_similarity equal_problems (map (\<lambda>p. 1) equal_problems)
     = map (\<lambda>p. with_similarity p 1) equal_problems"
  by (simp add: equal_problems_def)

lemma equal_rows_nth:
  "map (\<lambda>i. map (\<lambda>p. with_similarity p 1) equal_problems ! i)
       [0, 1, 16, 15, 14, 13, 12, 11, 10, 9, 8, 7, 6, 5, 4, 3, 2, 17]
     = map (\<lambda>c. with_similarity (equal_problem c) 1)
         [1, 2, 17, 16, 15, 14, 13, 12, 11, 10, 9, 8, 7, 6, 5, 4, 3, 18]"
  by (simp add: equal_problems_def)

lemma equal_sorted:
  "sort_values_desc partition_tie (map (\<lambda>p. with_similarity p 1) equal_problems)
     = map (\<lambda>c. with_similarity (equal_problem c) 1)
         [1, 2, 17, 16, 15, 14, 13, 12, 11, 10, 9, 8, 7, 6, 5, 4, 3, 18]"
proof -
  have len: "length (map (\<lambda>p. with_similarity p 1) equal_problems) = 18"
    by (simp add: equal_problems_def)
  have "\<forall>r\<in>set (map (\<lambda>p. with_similarity p 1) equal_problems). similarity r = 1"
    by (simp add: with_similarity_def)
  from sort_values_desc_equal [OF this, of partition_tie] have
    "sort_values_desc partition_tie (map (\<lambda>p. with_similarity p 1) equal_problems)
       = map (\<lambda>i. map (\<lambda>p. with_similarity p 1) equal_problems ! i)
           (sort_key partition_tie [0..<18])"
    by (simp only: len)
  then show ?thesis
    by (simp only: partition_tie_order equal_rows_nth)
qed

text \<open>
  C2 as stated fails: the eighteen problems have the same similarity 1, and the list
  returned has the problems 3 to 17 in the reverse of their order in the corpus.
\<close>

theorem equal_scores_lose_corpus_order:
  "get_recommendations partition_tie Fetch_raises Fetch_raises True equal_state ''tourist'' 18
       None None None
     = (Inr (map (\<lambda>c. with_similarity (equal_problem c) 1)
               [1, 2, 17, 16, 15, 14, 13, 12, 11, 10, 9, 8, 7, 6, 5, 4, 3, 18]), equal_state)
   \<and> problems_df equal_state
     = Some (map equal_problem [1, 2, 3, 4, 5, 6, 7, 8, 9, 10, 11, 12, 13, 14, 15, 16, 17, 18])"
proof -
  let ?out = "map (\<lambda>c. with_similarity (equal_problem c) 1)
               [1, 2, 17, 16, 15, 14, 13, 12, 11, 10, 9, 8, 7, 6, 5, 4, 3, 18]"
  have cv: "cached_vector equal_state ''tourist'' = Some [1, 0, 0]"
    by (simp add: cached_vector_def equal_state_def)
  have pv: "problem_vectors equal_state = Some (map (\<lambda>p. [1, 0, 0]) equal_problems)"
    and df: "problems_df equal_state = Some equal_problems"
    by (simp_all add: equal_state_def)
  have len: "length equal_problems = 18"
    by (simp add: equal_problems_def)
  have hd: "head_rows 18 ?out = ?out"
    by (simp add: head_rows_def)
  have "filter_and_rank partition_tie hr {} 18 None None None
          (map (\<lambda>p. with_similarity p 1) equal_problems) = Inr ?out" for hr
    by (simp add: filter_and_rank_def equal_sorted hd del: list.map)
  with cv pv df len have "get_recommendations partition_tie Fetch_raises Fetch_raises True
       equal_state ''tourist'' 18 None None None = (Inr ?out, equal_state)"
    by (simp add: get_recommendations_def get_or_create_user_vector_def equal_scores equal_frame
        fetch_solved_problems_def del: list.map)
  moreover have "problems_df equal_state
     = Some (map equal_problem [1, 2, 3, 4, 5, 6, 7, 8, 9, 10, 11, 12, 13, 14, 15, 16, 17, 18])"
    by (simp only: df equal_problems_def)
  ultimately show ?thesis by (rule conjI)
qed

subsection \<open>Rounding to double precision\<close>

text \<open>Powers of two and the exponent of a number.\<close>

lemma pow2_powr: "pow2 e = 2 powr (of_int e)"
proof (cases "0 \<le> e")
  case True
  then have "(2::real) powr (of_int e) = 2 powr (real (nat e))" by simp
  also have "\<dots> = 2 ^ nat e" by (rule powr_realpow) simp
  finally show ?thesis using True by (simp add: pow2_def)
next
  case False
  then have "(2::real) powr (of_int e) = 2 powr (- real (nat (- e)))" by simp
  also have "\<dots> = 1 / 2 powr (real (nat (- e)))" by (simp add: powr_minus_divide)
  also have "\<dots> = 1 / 2 ^ nat (- e)" by (simp add: powr_realpow)
  finally show ?thesis using False by (simp add: pow2_def)
qed

lemma pow2_pos [simp]: "0 < pow2 e"
  by (simp add: pow2_powr)

lemma pow2_nonneg [simp]: "0 \<le> pow2 e"
  by (simp add: pow2_powr)

lemma pow2_add: "pow2 (a + b) = pow2 a * pow2 b"
  by (simp add: pow2_powr powr_add)

lemma pow2_split: "pow2 a = pow2 k * pow2 (a - k)"
  using pow2_add [of k "a - k"] by simp

lemma pow2_mono: "a \<le> b \<Longrightarrow> pow2 a \<le> pow2 b"
  by (simp add: pow2_powr)

lemma pow2_less_iff: "pow2 a < pow2 b \<longleftrightarrow> a < b"
  by (simp add: pow2_powr)

lemma pow2_nat: "0 \<le> e \<Longrightarrow> pow2 e = 2 ^ nat e"
  by (simp add: pow2_def)

lemma binade_bounds:
  assumes "x \<noteq> 0"
  shows "pow2 (binade x) \<le> \<bar>x\<bar>" and "\<bar>x\<bar> < pow2 (binade x + 1)"
proof -
  define a where "a = \<bar>x\<bar>"
  with assms have a: "0 < a" by simp
  have "pow2 (binade x) \<le> a \<and> a < pow2 (binade x + 1)"
  proof (cases "1 \<le> a")
    case True
    define n where "n = \<lfloor>a\<rfloor>"
    from True have n: "0 < n" by (simp add: n_def)
    have b: "binade x = bitlen n - 1" using True by (simp add: binade_def a_def n_def Let_def)
    from bitlen_bounds [OF n] have lo: "2 ^ nat (bitlen n - 1) \<le> n" and hi: "n < 2 ^ nat (bitlen n)"
      by auto
    from n have bl: "1 \<le> bitlen n" by (auto simp: bitlen_alt_def)
    have "pow2 (bitlen n - 1) = 2 ^ nat (bitlen n - 1)" using bl by (simp add: pow2_nat)
    also have "\<dots> = of_int (2 ^ nat (bitlen n - 1))" by simp
    also have "\<dots> \<le> of_int n" using lo by (simp only: of_int_le_iff)
    also have "\<dots> \<le> a" by (simp add: n_def)
    finally have 1: "pow2 (binade x) \<le> a" by (simp add: b)
    from hi have "n + 1 \<le> 2 ^ nat (bitlen n)" by simp
    then have "real_of_int (n + 1) \<le> of_int (2 ^ nat (bitlen n))" by (simp only: of_int_le_iff)
    moreover have "a < of_int (n + 1)" by (simp add: n_def)
    ultimately have "a < 2 ^ nat (bitlen n)" by simp
    also have "\<dots> = pow2 (bitlen n)" using bl by (simp add: pow2_nat)
    finally have 2: "a < pow2 (binade x + 1)" by (simp add: b)
    from 1 2 show ?thesis by simp
  next
    case False
    define y where "y = 1 / a"
    define m where "m = \<lceil>y\<rceil> - 1"
    from False a have y: "1 < y" by (simp add: y_def)
    then have m: "0 < m" by (simp add: m_def less_ceiling_iff)
    have b: "binade x = - bitlen m" using False by (simp add: binade_def a_def m_def y_def Let_def)
    from bitlen_bounds [OF m] have lo: "2 ^ nat (bitlen m - 1) \<le> m" and hi: "m < 2 ^ nat (bitlen m)"
      by auto
    from m have bl: "1 \<le> bitlen m" by (auto simp: bitlen_alt_def)
    have my: "of_int m < y" unfolding m_def by linarith
    have ym: "y \<le> of_int (m + 1)" by (simp add: m_def)
    from hi have "m + 1 \<le> 2 ^ nat (bitlen m)" by simp
    then have "real_of_int (m + 1) \<le> of_int (2 ^ nat (bitlen m))" by (simp only: of_int_le_iff)
    with ym have "y \<le> 2 ^ nat (bitlen m)" by simp
    then have "1 / 2 ^ nat (bitlen m) \<le> a" using a by (simp add: y_def field_simps)
    moreover have "pow2 (- bitlen m) = 1 / 2 ^ nat (bitlen m)" using bl by (simp add: pow2_def)
    ultimately have 1: "pow2 (binade x) \<le> a" by (simp add: b)
    from lo have "real_of_int (2 ^ nat (bitlen m - 1)) \<le> of_int m" by (simp only: of_int_le_iff)
    then have "(2::real) ^ nat (bitlen m - 1) \<le> of_int m" by simp
    with my have "2 ^ nat (bitlen m - 1) < y" by linarith
    then have "a < 1 / 2 ^ nat (bitlen m - 1)" using a by (simp add: y_def field_simps)
    moreover have "pow2 (- bitlen m + 1) = 1 / 2 ^ nat (bitlen m - 1)"
      using bl by (cases "bitlen m = 1") (auto simp: pow2_def)
    ultimately have 2: "a < pow2 (binade x + 1)" by (simp add: b)
    from 1 2 show ?thesis by simp
  qed
  then show "pow2 (binade x) \<le> \<bar>x\<bar>" and "\<bar>x\<bar> < pow2 (binade x + 1)"
    by (simp_all add: a_def)
qed

lemma binade_unique:
  assumes "pow2 k \<le> \<bar>x\<bar>" and "\<bar>x\<bar> < pow2 (k + 1)"
  shows "binade x = k"
proof -
  from assms(1) pow2_pos [of k] have nz: "x \<noteq> 0" by (cases "x = 0") (simp_all add: not_le)
  note b = binade_bounds [OF nz]
  have "\<not> binade x < k"
  proof
    assume "binade x < k"
    then have "pow2 (binade x + 1) \<le> pow2 k" by (intro pow2_mono) simp
    with b(2) assms(1) show False by simp
  qed
  moreover have "\<not> k < binade x"
  proof
    assume "k < binade x"
    then have "pow2 (k + 1) \<le> pow2 (binade x)" by (intro pow2_mono) simp
    with b(1) assms(2) show False by simp
  qed
  ultimately show ?thesis by simp
qed

lemma binade_minus [simp]: "binade (- x) = binade x"
  by (simp add: binade_def)

text \<open>Rounding to the nearest integer, ties to even.\<close>

lemma rhe_of_int [simp]: "round_half_even (of_int n) = n"
  by (simp add: round_half_even_def)

lemma rhe_bounds: "\<lfloor>x\<rfloor> \<le> round_half_even x" "round_half_even x \<le> \<lfloor>x\<rfloor> + 1"
  by (simp_all add: round_half_even_def Let_def)

lemma rhe_mono:
  assumes "x \<le> y"
  shows "round_half_even x \<le> round_half_even y"
proof (cases "\<lfloor>x\<rfloor> = \<lfloor>y\<rfloor>")
  case True
  with assms show ?thesis
    by (auto simp: round_half_even_def Let_def)
next
  case False
  with assms have "\<lfloor>x\<rfloor> < \<lfloor>y\<rfloor>"
    using floor_mono [OF assms] by simp
  with rhe_bounds(2) [of x] rhe_bounds(1) [of y] show ?thesis
    by linarith
qed

lemma rhe_minus: "round_half_even (- x) = - round_half_even x"
proof (cases "x = of_int \<lfloor>x\<rfloor>")
  case True
  then obtain n where "x = of_int n" ..
  then have "- x = of_int (- n)" by simp
  then show ?thesis using \<open>x = of_int n\<close> by (simp only: rhe_of_int)
next
  case False
  then have fl: "\<lfloor>- x\<rfloor> = - \<lfloor>x\<rfloor> - 1"
    by (metis ceiling_altdef ceiling_def add_diff_cancel_right' minus_diff_eq uminus_add_conv_diff)
  from False have d: "0 < x - of_int \<lfloor>x\<rfloor>"
    by (metis diff_gt_0_iff_gt linorder_neqE_linordered_idom of_int_floor_le not_le)
  show ?thesis
    using d by (auto simp: round_half_even_def Let_def fl)
qed

text \<open>\<open>r64\<close> is odd, idempotent and monotone.\<close>

lemma r64_zero [simp]: "r64 0 = 0"
  by (simp add: r64_def)

lemma r64_minus: "r64 (- x) = - r64 x"
  by (simp add: r64_def Let_def rhe_minus)

lemma pow2_52: "pow2 52 = 4503599627370496" and pow2_53: "pow2 53 = 9007199254740992"
  by (simp_all add: pow2_def)

lemma pow2_diff: "pow2 (a - b) = pow2 a / pow2 b"
  by (simp add: pow2_powr powr_diff)

text \<open>The significand of a positive number lies between \<open>2^52\<close> and \<open>2^53\<close>.\<close>

lemma significand_bounds:
  assumes "0 < x"
  defines "q \<equiv> x / pow2 (binade x - 52)"
  shows "4503599627370496 \<le> round_half_even q" and "round_half_even q \<le> 9007199254740992"
proof -
  from assms(1) have nz: "x \<noteq> 0" by simp
  from binade_bounds [OF nz] assms(1)
  have lo: "pow2 (binade x) \<le> x" and hi: "x < pow2 (binade x + 1)" by simp_all
  have "pow2 (binade x) = pow2 52 * pow2 (binade x - 52)"
    by (rule pow2_split)
  with lo have "pow2 52 \<le> q"
    by (simp add: q_def pos_le_divide_eq)
  then have "of_int 4503599627370496 \<le> q" by (simp add: pow2_52)
  from rhe_mono [OF this] show "4503599627370496 \<le> round_half_even q"
    by (simp only: rhe_of_int)
  have "pow2 (binade x + 1) = pow2 53 * pow2 (binade x - 52)"
    using pow2_split [of "binade x + 1" 53] by simp
  with hi have "q \<le> pow2 53"
    by (simp add: q_def pos_divide_le_eq)
  then have "q \<le> of_int 9007199254740992" by (simp add: pow2_53)
  from rhe_mono [OF this] show "round_half_even q \<le> 9007199254740992"
    by (simp only: rhe_of_int)
qed

lemma r64_pos_bounds:
  assumes "0 < x"
  shows "pow2 (binade x) \<le> r64 x" and "r64 x \<le> pow2 (binade x + 1)"
proof -
  let ?p = "pow2 (binade x - 52)"
  let ?m = "round_half_even (x / ?p)"
  from assms have r: "r64 x = of_int ?m * ?p" by (simp add: r64_def Let_def)
  note sb = significand_bounds [OF assms]
  have "pow2 (binade x) = pow2 52 * ?p" by (rule pow2_split)
  also have "\<dots> \<le> of_int ?m * ?p"
    using sb(1) by (intro mult_right_mono) (simp_all add: pow2_52)
  finally show "pow2 (binade x) \<le> r64 x" by (simp add: r)
  have "of_int ?m * ?p \<le> pow2 53 * ?p"
    using sb(2) by (intro mult_right_mono) (simp_all add: pow2_53)
  also have "\<dots> = pow2 (binade x + 1)" using pow2_split [of "binade x + 1" 53] by simp
  finally show "r64 x \<le> pow2 (binade x + 1)" by (simp add: r)
qed

lemma r64_nonneg: "0 \<le> x \<Longrightarrow> 0 \<le> r64 x"
  using r64_pos_bounds(1) [of x] pow2_nonneg [of "binade x"] by (cases "x = 0") (simp, linarith)

text \<open>A number with a significand of 53 bits is a double.\<close>

lemma r64_fix:
  assumes "4503599627370496 \<le> m" and "m < 9007199254740992"
  shows "r64 (of_int m * pow2 e) = of_int m * pow2 e"
proof -
  let ?x = "of_int m * pow2 e"
  from assms have pos: "0 < ?x" by simp
  have "pow2 (e + 52) = pow2 52 * pow2 e" using pow2_split [of "e + 52" 52] by simp
  also have "\<dots> \<le> ?x" using assms(1) by (intro mult_right_mono) (simp_all add: pow2_52)
  finally have lo: "pow2 (e + 52) \<le> \<bar>?x\<bar>" using pos by simp
  have "?x < pow2 53 * pow2 e" using assms(2) by (intro mult_strict_right_mono) (simp_all add: pow2_53)
  also have "\<dots> = pow2 (e + 52 + 1)" using pow2_split [of "e + 52 + 1" 53] by simp
  finally have hi: "\<bar>?x\<bar> < pow2 (e + 52 + 1)" using pos by simp
  from binade_unique [OF lo hi] have "binade ?x = e + 52" .
  with pos show ?thesis by (simp add: r64_def Let_def)
qed

lemma r64_idem: "r64 (r64 x) = r64 x"
proof -
  have pos: "r64 (r64 x) = r64 x" if "0 < x" for x
  proof -
    let ?p = "pow2 (binade x - 52)"
    let ?m = "round_half_even (x / ?p)"
    from that have r: "r64 x = of_int ?m * ?p" by (simp add: r64_def Let_def)
    note sb = significand_bounds [OF that]
    show ?thesis
    proof (cases "?m < 9007199254740992")
      case True
      from r64_fix [OF sb(1) True] show ?thesis by (simp add: r)
    next
      case False
      with sb(2) have m: "?m = 9007199254740992" by simp
      have "pow2 (binade x - 52 + 1) = 2 * ?p"
        using pow2_split [of "binade x - 52 + 1" 1] by (simp add: pow2_def [of 1])
      then have "r64 x = of_int 4503599627370496 * pow2 (binade x - 52 + 1)"
        by (simp add: r m)
      moreover have "r64 (of_int 4503599627370496 * pow2 (binade x - 52 + 1))
          = of_int 4503599627370496 * pow2 (binade x - 52 + 1)"
        by (rule r64_fix) simp_all
      ultimately show ?thesis by simp
    qed
  qed
  show ?thesis
  proof (cases "0 < x")
    case True
    then show ?thesis by (rule pos)
  next
    case False
    show ?thesis
    proof (cases "x = 0")
      case True
      then show ?thesis by simp
    next
      case nz: False
      with False have "0 < - x" by simp
      from pos [OF this] show ?thesis by (simp add: r64_minus)
    qed
  qed
qed

lemma binade_mono:
  assumes "0 < x" and "x \<le> y"
  shows "binade x \<le> binade y"
proof (rule ccontr)
  assume "\<not> binade x \<le> binade y"
  then have "binade y + 1 \<le> binade x" by simp
  then have "pow2 (binade y + 1) \<le> pow2 (binade x)" by (rule pow2_mono)
  moreover from assms have "x \<noteq> 0" "y \<noteq> 0" by simp_all
  from binade_bounds(1) [OF this(1)] binade_bounds(2) [OF this(2)] assms
  have "pow2 (binade x) \<le> x" "y < pow2 (binade y + 1)" by simp_all
  ultimately show False using assms(2) by simp
qed

lemma r64_mono_pos:
  assumes "0 < x" and "x \<le> y"
  shows "r64 x \<le> r64 y"
proof (cases "binade x = binade y")
  case True
  let ?p = "pow2 (binade y - 52)"
  from assms have "x / ?p \<le> y / ?p" by (simp add: divide_right_mono)
  from rhe_mono [OF this] have "of_int (round_half_even (x / ?p)) * ?p \<le> of_int (round_half_even (y / ?p)) * ?p"
    by (intro mult_right_mono) simp_all
  with assms True show ?thesis by (simp add: r64_def Let_def)
next
  case False
  with binade_mono [OF assms] have "binade x + 1 \<le> binade y" by simp
  then have "pow2 (binade x + 1) \<le> pow2 (binade y)" by (rule pow2_mono)
  moreover from assms have "0 < y" by simp
  note r64_pos_bounds(2) [OF assms(1)] r64_pos_bounds(1) [OF this]
  ultimately show ?thesis by simp
qed

lemma r64_mono:
  assumes "x \<le> y"
  shows "r64 x \<le> r64 y"
proof -
  consider "0 < x" | "x \<le> 0" "0 \<le> y" | "y < 0" by linarith
  then show ?thesis
  proof cases
    case 1
    then show ?thesis using assms by (rule r64_mono_pos)
  next
    case 2
    from 2(1) have "0 \<le> r64 (- x)" by (intro r64_nonneg) simp
    then have "r64 x \<le> 0" by (simp add: r64_minus)
    also have "0 \<le> r64 y" using 2(2) by (rule r64_nonneg)
    finally show ?thesis .
  next
    case 3
    with assms have "0 < - y" "- y \<le> - x" by simp_all
    from r64_mono_pos [OF this] show ?thesis by (simp add: r64_minus)
  qed
qed

text \<open>The error of one rounding: at most \<open>2^-53\<close> of the number rounded.\<close>

lemma rhe_error: "\<bar>of_int (round_half_even x) - x\<bar> \<le> 1 / 2"
proof -
  have "of_int \<lfloor>x\<rfloor> \<le> x" "x < of_int \<lfloor>x\<rfloor> + 1" by linarith+
  then show ?thesis by (auto simp: round_half_even_def Let_def)
qed

lemma r64_error: "\<bar>r64 x - x\<bar> \<le> pow2 (- 53) * \<bar>x\<bar>"
proof (cases "x = 0")
  case True
  then show ?thesis by simp
next
  case False
  define p where "p = pow2 (binade x - 52)"
  define q where "q = x / p"
  have p: "0 < p" by (simp add: p_def)
  have r: "r64 x = of_int (round_half_even q) * p"
    using False by (simp add: r64_def Let_def p_def q_def)
  have x: "q * p = x" using p by (simp add: q_def)
  have "(of_int (round_half_even q) - q) * p = of_int (round_half_even q) * p - q * p"
    by (simp add: algebra_simps)
  then have "r64 x - x = (of_int (round_half_even q) - q) * p"
    by (simp only: r x)
  then have "\<bar>r64 x - x\<bar> = \<bar>of_int (round_half_even q) - q\<bar> * p"
    using p by (simp add: abs_mult)
  also have "\<dots> \<le> 1 / 2 * p"
    using rhe_error [of q] p by (intro mult_right_mono) simp_all
  also have "1 / 2 * p = pow2 (- 53) * pow2 (binade x)"
    using pow2_add [of "- 53" "binade x"] pow2_diff [of "binade x - 52" 1]
    by (simp add: p_def pow2_def [of 1])
  also have "\<dots> \<le> pow2 (- 53) * \<bar>x\<bar>"
    using binade_bounds(1) [OF False] by (intro mult_left_mono) simp_all
  finally show ?thesis .
qed

lemma r64_upper: "0 \<le> x \<Longrightarrow> r64 x \<le> (1 + pow2 (- 53)) * x"
  using r64_error [of x] by (simp add: algebra_simps abs_le_iff)

lemma r64_lower: "0 \<le> x \<Longrightarrow> (1 - pow2 (- 53)) * x \<le> r64 x"
  using r64_error [of x] by (simp add: algebra_simps abs_le_iff)

lemma r64_one: "r64 1 = 1"
  using r64_fix [of 4503599627370496 "- 52"] by (simp add: pow2_def)

lemma scaled_bound_algebra:
  fixes u D H R s y :: real
  assumes u: "0 < u" "u \<le> 1 / 5" and D: "0 < D" and H: "0 \<le> H" and R: "0 < R"
    and RD: "(1 - u) * D \<le> R" and s: "0 \<le> s" "s \<le> (1 + u) * (1 / R)"
    and y: "y \<le> (1 + u) * (s * (D + 2 * u * H))"
  shows "y \<le> (1 + 4 * u) * (1 + 2 * u * H / D)"
proof -
  from u have u1: "0 < 1 - u" by simp
  with D have d: "0 < (1 - u) * D" by simp
  from u H D have K: "0 \<le> D + 2 * u * H" by simp
  from u H D have K': "0 \<le> 1 + 2 * u * H / D" by simp
  have "1 / R \<le> 1 / ((1 - u) * D)"
    using RD d by (intro divide_left_mono) simp_all
  then have "(1 + u) * (1 / R) \<le> (1 + u) * (1 / ((1 - u) * D))"
    using u by (intro mult_left_mono) simp_all
  with s have "s \<le> (1 + u) * (1 / ((1 - u) * D))" by simp
  then have "s * (D + 2 * u * H) \<le> (1 + u) * (1 / ((1 - u) * D)) * (D + 2 * u * H)"
    using K by (rule mult_right_mono)
  then have "(1 + u) * (s * (D + 2 * u * H))
      \<le> (1 + u) * ((1 + u) * (1 / ((1 - u) * D)) * (D + 2 * u * H))"
    using u by (intro mult_left_mono) simp_all
  also have "\<dots> = ((1 + u) * (1 + u) / (1 - u)) * (1 + 2 * u * H / D)"
    using D u1 by (simp add: field_simps)
  also have "\<dots> \<le> (1 + 4 * u) * (1 + 2 * u * H / D)"
  proof (rule mult_right_mono [OF _ K'])
    have "0 \<le> u * (1 - 5 * u)" using u by simp
    then have "(1 + u) * (1 + u) \<le> (1 + 4 * u) * (1 - u)" by (simp add: algebra_simps)
    then show "(1 + u) * (1 + u) / (1 - u) \<le> 1 + 4 * u"
      using u1 by (simp add: pos_divide_le_eq)
  qed
  finally show ?thesis using y by simp
qed

subsection \<open>The scaled columns\<close>

lemma handle_zeros_in_scale_pos: "0 < handle_zeros_in_scale s"
proof -
  have "0 < 10 * pow2 (- 52)" by simp
  then show ?thesis by (auto simp: handle_zeros_in_scale_def simp del: pow2_pos)
qed

lemma MinMaxScaler_result:
  assumes "X \<noteq> []"
  obtains Y where "MinMaxScaler_fit_transform X = Inr Y" and "length Y = length X"
    and "\<forall>y\<in>set Y. 0 \<le> y"
    and "\<forall>i<length X. X ! i = Min (set X) \<longrightarrow> Y ! i = 0"
proof -
  define lo where "lo = Min (set X)"
  define scale where "scale = fdiv 1 (handle_zeros_in_scale (fsub (Max (set X)) lo))"
  define a where "a = fmul lo scale"
  define Y where "Y = map (\<lambda>x. fadd (fmul x scale) (fsub 0 a)) X"
  have Y: "MinMaxScaler_fit_transform X = Inr Y"
    using assms by (simp add: MinMaxScaler_fit_transform_def Let_def Y_def a_def scale_def lo_def)
  have "0 \<le> 1 / handle_zeros_in_scale (fsub (Max (set X)) lo)"
    using handle_zeros_in_scale_pos [of "fsub (Max (set X)) lo"] by simp
  then have scale: "0 \<le> scale"
    unfolding scale_def fdiv_def by (rule r64_nonneg)
  have neg: "fsub 0 a = - a"
    by (simp add: fsub_def a_def fmul_def r64_minus r64_idem)
  have out: "fadd (fmul x scale) (fsub 0 a) = r64 (fmul x scale - a)" for x
    by (simp add: fadd_def neg)
  have "0 \<le> fadd (fmul x scale) (fsub 0 a)" if "x \<in> set X" for x
  proof -
    from that have "lo \<le> x" by (simp add: lo_def)
    then have "lo * scale \<le> x * scale" using scale by (rule mult_right_mono)
    then have "a \<le> fmul x scale" unfolding a_def fmul_def by (rule r64_mono)
    then have "0 \<le> r64 (fmul x scale - a)" by (intro r64_nonneg) simp
    then show ?thesis by (simp add: out)
  qed
  then have nonneg: "\<forall>y\<in>set Y. 0 \<le> y" by (auto simp: Y_def)
  have "Y ! i = 0" if "i < length X" "X ! i = Min (set X)" for i
  proof -
    from that(2) have "fmul (X ! i) scale = a" by (simp add: a_def lo_def)
    with out [of "X ! i"] have "fadd (fmul (X ! i) scale) (fsub 0 a) = 0" by simp
    with that(1) show ?thesis by (simp add: Y_def)
  qed
  with Y nonneg show ?thesis by (intro that [of Y]) (simp_all add: Y_def)
qed

text \<open>
  The upper bound of a scaled column of doubles: with \<open>u = 2^-53\<close> the unit roundoff, the
  range \<open>D\<close> is computed within \<open>1 - u\<close>, its inverse within \<open>1 + u\<close>, each of the two
  products within \<open>u\<close> times the largest magnitude \<open>H\<close> of the column, and their difference
  within \<open>1 + u\<close>.
\<close>

lemma MinMaxScaler_upper:
  assumes ne: "X \<noteq> []" and dbl: "\<forall>x\<in>set X. r64 x = x"
    and Y: "MinMaxScaler_fit_transform X = Inr Y"
    and lt: "Min (set X) < Max (set X)"
  shows "\<forall>y\<in>set Y. y \<le> (1 + pow2 (- 51))
           * (1 + pow2 (- 52) * max \<bar>Min (set X)\<bar> \<bar>Max (set X)\<bar> / (Max (set X) - Min (set X)))"
proof -
  define lo where "lo = Min (set X)"
  define hi where "hi = Max (set X)"
  define D where "D = hi - lo"
  define H where "H = max \<bar>lo\<bar> \<bar>hi\<bar>"
  define u where "u = pow2 (- 53)"
  define R where "R = fsub hi lo"
  define scale where "scale = fdiv 1 (handle_zeros_in_scale R)"
  define a where "a = fmul lo scale"
  define B where "B = (1 + 4 * u) * (1 + 2 * u * H / D)"
  have D: "0 < D" using lt by (simp add: D_def lo_def hi_def)
  have H: "0 \<le> H" by (simp add: H_def)
  have u: "0 < u" "u \<le> 1 / 5" by (simp_all add: u_def pow2_def)
  have u4: "4 * u = pow2 (- 51)" and u2: "2 * u = pow2 (- 52)" by (simp_all add: u_def pow2_def)
  have neg: "fsub 0 a = - a"
    by (simp add: fsub_def a_def fmul_def r64_minus r64_idem)
  have "Y = map (\<lambda>x. fadd (fmul x scale) (fsub 0 a)) X"
    using Y ne
    by (simp add: MinMaxScaler_fit_transform_def Let_def a_def scale_def R_def lo_def hi_def)
  then have Yeq: "Y = map (\<lambda>x. r64 (fmul x scale - a)) X"
    by (simp add: fadd_def neg)
  have lo_mem: "lo \<in> set X" using ne by (simp add: lo_def)
  have mem: "lo \<le> x \<and> x \<le> hi \<and> \<bar>x\<bar> \<le> H" if "x \<in> set X" for x
  proof -
    from that have "lo \<le> x" "x \<le> hi" by (simp_all add: lo_def hi_def)
    then show ?thesis by (auto simp: H_def)
  qed
  have B1: "1 \<le> B"
  proof -
    have "0 \<le> 2 * u * H / D" using u H D by simp
    then have "1 * 1 \<le> (1 + 4 * u) * (1 + 2 * u * H / D)"
      using u by (intro mult_mono) simp_all
    then show ?thesis by (simp add: B_def)
  qed
  have Rr: "R = r64 D" by (simp add: R_def fsub_def D_def)
  have Rpos: "0 < R"
    unfolding Rr using r64_pos_bounds(1) [OF D] pow2_pos [of "binade D"] by linarith
  have "y \<le> B" if "y \<in> set Y" for y
  proof -
    from that obtain x where x: "x \<in> set X" and y: "y = r64 (fmul x scale - a)"
      by (auto simp: Yeq)
    note m = mem [OF x]
    show ?thesis
    proof (cases "R < 10 * pow2 (- 52)")
      case True
      then have sc: "scale = 1"
        by (simp add: scale_def handle_zeros_in_scale_def fdiv_def r64_one)
      have fx: "fmul x scale = x" using dbl x by (simp add: sc fmul_def)
      have fa: "a = lo" using dbl lo_mem by (simp add: a_def sc fmul_def)
      have "y = r64 (x - lo)" by (simp add: y fx fa)
      also have "\<dots> \<le> r64 (hi - lo)" using m by (intro r64_mono) simp
      also have "\<dots> = R" by (simp add: R_def fsub_def)
      also have "R \<le> 1" using True by (simp add: pow2_def)
      finally show ?thesis using B1 by simp
    next
      case False
      then have sc: "scale = r64 (1 / R)"
        by (simp add: scale_def handle_zeros_in_scale_def fdiv_def)
      from Rpos have iR: "0 \<le> 1 / R" by simp
      have s0: "0 \<le> scale" unfolding sc using iR by (rule r64_nonneg)
      have s1: "scale \<le> (1 + u) * (1 / R)"
        unfolding sc u_def using iR by (rule r64_upper)
      have R1: "(1 - u) * D \<le> R"
        unfolding Rr u_def using D by (intro r64_lower) simp
      have b: "fmul x scale \<le> x * scale + u * (H * scale)"
      proof -
        have "fmul x scale - x * scale \<le> \<bar>r64 (x * scale) - x * scale\<bar>"
          by (simp add: fmul_def)
        also have "\<dots> \<le> u * \<bar>x * scale\<bar>" unfolding u_def by (rule r64_error)
        also have "\<bar>x * scale\<bar> = \<bar>x\<bar> * scale" using s0 by (simp add: abs_mult)
        also have "u * (\<bar>x\<bar> * scale) \<le> u * (H * scale)"
          using m s0 u by (intro mult_left_mono mult_right_mono) simp_all
        finally show ?thesis by simp
      qed
      have a': "lo * scale - u * (H * scale) \<le> a"
      proof -
        have "lo * scale - a \<le> \<bar>r64 (lo * scale) - lo * scale\<bar>"
          by (simp add: a_def fmul_def)
        also have "\<dots> \<le> u * \<bar>lo * scale\<bar>" unfolding u_def by (rule r64_error)
        also have "\<bar>lo * scale\<bar> = \<bar>lo\<bar> * scale" using s0 by (simp add: abs_mult)
        also have "u * (\<bar>lo\<bar> * scale) \<le> u * (H * scale)"
          using mem [OF lo_mem] s0 u by (intro mult_left_mono mult_right_mono) simp_all
        finally show ?thesis by simp
      qed
      have "lo * scale \<le> x * scale" using m s0 by (intro mult_right_mono) simp_all
      then have "a \<le> fmul x scale" unfolding a_def fmul_def by (rule r64_mono)
      then have nonneg: "0 \<le> fmul x scale - a" by simp
      have "(x - lo) * scale \<le> D * scale"
        using m s0 by (intro mult_right_mono) (simp_all add: D_def)
      with b a' have "fmul x scale - a \<le> scale * (D + 2 * u * H)"
        by (simp add: algebra_simps)
      then have "(1 + u) * (fmul x scale - a) \<le> (1 + u) * (scale * (D + 2 * u * H))"
        using u by (intro mult_left_mono) simp_all
      moreover have "y \<le> (1 + u) * (fmul x scale - a)"
        unfolding y u_def using nonneg by (rule r64_upper)
      ultimately have "y \<le> (1 + u) * (scale * (D + 2 * u * H))" by simp
      with u D H Rpos R1 s0 s1 show ?thesis
        unfolding B_def by (intro scaled_bound_algebra [where R = R and s = scale])
    qed
  qed
  then show ?thesis
    by (simp add: B_def u4 u2 H_def D_def lo_def hi_def)
qed

lemma column_exists:
  assumes "\<exists>p\<in>set df. key p \<noteq> No_key"
  shows "column key df = Inr (map key df)"
  using assms by (auto simp: column_def list_all_iff)

lemma hstack_rows:
  assumes "length R = length T" and "length S = length T"
  shows "length (hstack T R S) = length T"
    and "i < length T \<Longrightarrow> scaled_rating (hstack T R S ! i) = R ! i"
    and "i < length T \<Longrightarrow> scaled_solved (hstack T R S ! i) = S ! i"
    and "i < length T \<Longrightarrow> length (hstack T R S ! i) = length (T ! i) + 2"
  using assms by (simp_all add: hstack_def scaled_rating_def scaled_solved_def nth_append)

text \<open>Adding \<^verbatim>\<open>tags_text\<close> leaves the other columns as they are.\<close>

lemma ensure_tags_text_columns:
  "length (ensure_tags_text df) = length df"
  "map rating (ensure_tags_text df) = map rating df"
  "map solvedCount (ensure_tags_text df) = map solvedCount df"
  "map (\<lambda>p. f (rating p)) (ensure_tags_text df) = map (\<lambda>p. f (rating p)) df"
  "map (\<lambda>p. g (solvedCount p)) (ensure_tags_text df) = map (\<lambda>p. g (solvedCount p)) df"
  by (simp_all add: ensure_tags_text_def comp_def)

lemma ensure_tags_text_complete:
  assumes "df \<noteq> []"
    and "(\<forall>p\<in>set df. tags_text p = None) \<or> (\<forall>p\<in>set df. tags_text p \<noteq> None)"
  shows "\<not> list_ex (\<lambda>p. tags_text p = None) (ensure_tags_text df)"
  using assms by (cases df) (auto simp: ensure_tags_text_def list_ex_iff list_all_iff)

lemma ensure_tags_text_key:
  "(\<exists>p\<in>set (ensure_tags_text df). rating p \<noteq> No_key) \<longleftrightarrow> (\<exists>p\<in>set df. rating p \<noteq> No_key)"
  "(\<exists>p\<in>set (ensure_tags_text df). solvedCount p \<noteq> No_key)
     \<longleftrightarrow> (\<exists>p\<in>set df. solvedCount p \<noteq> No_key)"
  by (auto simp: ensure_tags_text_def)

text \<open>
  With a corpus whose \<^verbatim>\<open>tags_text\<close> column is absent or complete, a vectorizer and the two
  columns, the feature matrix is produced.
\<close>

lemma process_problem_features_result:
  assumes "problems_df st = Some df" and "tfidf_vectorizer st = Some vec"
    and "(\<forall>p\<in>set df. tags_text p = None) \<or> (\<forall>p\<in>set df. tags_text p \<noteq> None)"
    and "\<exists>p\<in>set df. rating p \<noteq> No_key" and "\<exists>p\<in>set df. solvedCount p \<noteq> No_key"
  obtains R S where
    "MinMaxScaler_fit_transform (map (\<lambda>p. float64 (fillna 1500 (rating p))) df) = Inr R"
    and "MinMaxScaler_fit_transform (map (\<lambda>p. float64 (fillna 0 (solvedCount p))) df) = Inr S"
    and "length R = length df" and "length S = length df"
    and "process_problem_features st
           = (Inr True,
              st\<lparr>problems_df := Some (ensure_tags_text df),
                 problem_vectors :=
                   Some (hstack (map (\<lambda>p. vec (the (tags_text p))) (ensure_tags_text df)) R S)\<rparr>)"
proof -
  from assms(4) have ne: "df \<noteq> []" by auto
  let ?X = "map (\<lambda>p. float64 (fillna 1500 (rating p))) df"
  let ?Z = "map (\<lambda>p. float64 (fillna 0 (solvedCount p))) df"
  from ne obtain R where R: "MinMaxScaler_fit_transform ?X = Inr R" and lR: "length R = length df"
    by (auto intro: MinMaxScaler_result [of ?X])
  from ne obtain S where S: "MinMaxScaler_fit_transform ?Z = Inr S" and lS: "length S = length df"
    by (auto intro: MinMaxScaler_result [of ?Z])
  have cr: "column rating (ensure_tags_text df) = Inr (map rating (ensure_tags_text df))"
    using assms(4) by (intro column_exists) (simp add: ensure_tags_text_key)
  have cs: "column solvedCount (ensure_tags_text df) = Inr (map solvedCount (ensure_tags_text df))"
    using assms(5) by (intro column_exists) (simp add: ensure_tags_text_key)
  have "process_problem_features st
           = (Inr True,
              st\<lparr>problems_df := Some (ensure_tags_text df),
                 problem_vectors :=
                   Some (hstack (map (\<lambda>p. vec (the (tags_text p))) (ensure_tags_text df)) R S)\<rparr>)"
    using assms(1,2) ne R S ensure_tags_text_complete [OF ne assms(3)]
    by (simp add: process_problem_features_def Let_def cr cs comp_def ensure_tags_text_columns)
  with R S lR lS show ?thesis by (rule that)
qed

lemma float64_mono: "i \<le> j \<Longrightarrow> float64 i \<le> float64 j"
  unfolding float64_def by (rule r64_mono) simp

lemma float64_double: "r64 (float64 i) = float64 i"
  by (simp add: float64_def r64_idem)

lemma demo_ratings_scaled:
  "MinMaxScaler_fit_transform [float64 800, float64 1200, float64 1500]
     = Inr [0, 2573485501354569 / 4503599627370496, 1]"
  by code_simp

lemma demo_solved_scaled:
  "MinMaxScaler_fit_transform [float64 1, float64 6, float64 6]
     = Inr [0, 4503599627370497 / 4503599627370496, 4503599627370497 / 4503599627370496]"
  by code_simp

lemma demo_features:
  "process_problem_features demo_state
     = (Inr True, demo_state\<lparr>problem_vectors := Some demo_matrix\<rparr>)"
  by (simp add: process_problem_features_def demo_defs ensure_tags_text_def column_def fillna_def
      demo_ratings_scaled demo_solved_scaled hstack_def demo_vectorizer_def demo_matrix_def)

lemma loaded_features:
  "process_problem_features loaded_state
     = (Inr True, demo_state\<lparr>problem_vectors := Some demo_matrix\<rparr>)"
  by (simp add: process_problem_features_def loaded_state_def corpus_file_def demo_defs
      ensure_tags_text_def column_def fillna_def demo_ratings_scaled demo_solved_scaled hstack_def
      demo_vectorizer_def demo_matrix_def)

subsection \<open>Missing ratings\<close>

text \<open>
  C5 as stated fails: after \<^verbatim>\<open>process_problem_features\<close> the rating of 3C is still missing
  in the corpus, and a request with \<^verbatim>\<open>min_rating = 1000\<close> drops 3C, which the default value
  1500 would have kept.
\<close>

theorem missing_rating_survives_feature_composition:
  "map rating (the (problems_df (snd (process_problem_features demo_state))))
     = [Value 800, Value 1200, No_key]
   \<and> fst (get_recommendations id Fetch_raises Fetch_raises True
           (snd (process_problem_features demo_state)) ''tourist'' 10 (Some 1000) None None)
     = Inr [with_similarity problem_B 0]
   \<and> fst (get_recommendations id Fetch_raises Fetch_raises True
           (snd (process_problem_features demo_state)) ''tourist'' 10 None None None)
     = Inr [with_similarity problem_A 1, with_similarity problem_B 0, with_similarity problem_C 0]"
  by (simp add: demo_features demo_matrix_def) (simp add: demo_defs run_defs)

text \<open>
  C5, amended. For a corpus with a vectorizer and with the two columns,
  \<^verbatim>\<open>process_problem_features\<close> produces the feature matrix, and the default values are in
  the matrix only: the scaled rating of every row is the entry of the column scaled from the
  ratings with 1500 in the place of each missing one, the scaled solved count is the entry of
  the column scaled from the solved counts with 0 in the place of each missing one, and the
  corpus keeps its ratings and solved counts, missing where they were. So a rating can be
  missing at filter time, and a request with \<^verbatim>\<open>min_rating\<close> or \<^verbatim>\<open>max_rating\<close> on the state
  that comes out returns only problems that have a rating.
\<close>

theorem default_fill_stays_in_feature_matrix:
  assumes "problems_df st = Some df" and "tfidf_vectorizer st = Some vec"
    and "(\<forall>p\<in>set df. tags_text p = None) \<or> (\<forall>p\<in>set df. tags_text p \<noteq> None)"
    and "\<exists>p\<in>set df. rating p \<noteq> No_key" and "\<exists>p\<in>set df. solvedCount p \<noteq> No_key"
  shows "\<exists>st1 df1 M R S.
           process_problem_features st = (Inr True, st1)
         \<and> problems_df st1 = Some df1 \<and> problem_vectors st1 = Some M
         \<and> map rating df1 = map rating df \<and> map solvedCount df1 = map solvedCount df
         \<and> length M = length df
         \<and> MinMaxScaler_fit_transform
              (map (\<lambda>p. float64 (case rating p of Value v \<Rightarrow> v | _ \<Rightarrow> 1500)) df) = Inr R
         \<and> MinMaxScaler_fit_transform
              (map (\<lambda>p. float64 (case solvedCount p of Value c \<Rightarrow> c | _ \<Rightarrow> 0)) df) = Inr S
         \<and> (\<forall>i<length df. scaled_rating (M ! i) = R ! i \<and> scaled_solved (M ! i) = S ! i)
         \<and> (\<forall>tie reply_vector reply disk_ok user_handle n mn mx tg recs st2 r.
               get_recommendations tie reply_vector reply disk_ok st1 user_handle n mn mx tg
                 = (Inr recs, st2)
               \<longrightarrow> mn \<noteq> None \<or> mx \<noteq> None \<longrightarrow> r \<in> set recs \<longrightarrow> (\<exists>v. rating r = Value v))"
proof -
  let ?df1 = "ensure_tags_text df"
  let ?T = "map (\<lambda>p. vec (the (tags_text p))) ?df1"
  from process_problem_features_result [OF assms] obtain R S where
    R: "MinMaxScaler_fit_transform (map (\<lambda>p. float64 (fillna 1500 (rating p))) df) = Inr R"
    and S: "MinMaxScaler_fit_transform (map (\<lambda>p. float64 (fillna 0 (solvedCount p))) df) = Inr S"
    and lR: "length R = length df" and lS: "length S = length df"
    and run: "process_problem_features st
           = (Inr True, st\<lparr>problems_df := Some ?df1, problem_vectors := Some (hstack ?T R S)\<rparr>)"
    by blast
  let ?st1 = "st\<lparr>problems_df := Some ?df1, problem_vectors := Some (hstack ?T R S)\<rparr>"
  have lT: "length ?T = length df"
    by (simp add: ensure_tags_text_columns)
  note h = hstack_rows [of R ?T S, unfolded lT, OF lR lS]
  have filled: "fillna d x = (case x of Value v \<Rightarrow> v | _ \<Rightarrow> d)" for d :: int and x
    by (simp add: fillna_def)
  have rated: "\<exists>v. rating r = Value v"
    if run: "get_recommendations tie reply_vector reply disk_ok ?st1 user_handle n mn mx tg
               = (Inr recs, st2)"
      and given: "mn \<noteq> None \<or> mx \<noteq> None" and r: "r \<in> set recs"
    for tie reply_vector reply disk_ok user_handle n mn mx tg recs st2 r
  proof -
    from r have "recs \<noteq> []" by auto
    with run obtain df' scores where
      fr: "filter_and_rank tie (list_ex (\<lambda>p. rating p \<noteq> No_key) df') (fetch_solved_problems reply)
             n mn mx tg (map2 with_similarity df' scores) = Inr recs"
      by (rule get_recommendations_frame)
    note rows = filter_and_rank_rows(3,4) [OF fr r]
    from given show ?thesis
    proof
      assume "mn \<noteq> None"
      then obtain b where "mn = Some b" by auto
      from rows(1) [OF this] show ?thesis
        by (auto simp: rating_ge_def split: cell.splits)
    next
      assume "mx \<noteq> None"
      then obtain b where "mx = Some b" by auto
      from rows(2) [OF this] show ?thesis
        by (auto simp: rating_le_def split: cell.splits)
    qed
  qed
  have "process_problem_features st = (Inr True, ?st1)
         \<and> problems_df ?st1 = Some ?df1 \<and> problem_vectors ?st1 = Some (hstack ?T R S)
         \<and> map rating ?df1 = map rating df \<and> map solvedCount ?df1 = map solvedCount df
         \<and> length (hstack ?T R S) = length df
         \<and> MinMaxScaler_fit_transform
              (map (\<lambda>p. float64 (case rating p of Value v \<Rightarrow> v | _ \<Rightarrow> 1500)) df) = Inr R
         \<and> MinMaxScaler_fit_transform
              (map (\<lambda>p. float64 (case solvedCount p of Value c \<Rightarrow> c | _ \<Rightarrow> 0)) df) = Inr S
         \<and> (\<forall>i<length df. scaled_rating (hstack ?T R S ! i) = R ! i
                \<and> scaled_solved (hstack ?T R S ! i) = S ! i)"
    using run R S h by (simp add: ensure_tags_text_columns filled)
  with rated show ?thesis by blast
qed

text \<open>
  The corpus read from its file: the frame gains \<^verbatim>\<open>tags_text\<close>, the rating of 3C stays
  missing, and in the matrix 3C has the scaled rating 1 of the default 1500, the largest of
  800, 1200 and 1500.
\<close>

theorem default_fill_stays_in_feature_matrix_witness:
  "\<exists>st1 df1 M.
     process_problem_features loaded_state = (Inr True, st1)
   \<and> problems_df st1 = Some df1 \<and> problem_vectors st1 = Some M
   \<and> map rating df1 = [Value 800, Value 1200, No_key]
   \<and> map tags_text df1 = [Some ''math'', Some ''dp'', Some ''math dp'']
   \<and> scaled_rating (M ! 2) = 1
   \<and> fst (get_recommendations id Fetch_raises Fetch_raises True st1 ''tourist'' 10
             None (Some 1300) None)
       = Inr [with_similarity problem_A 1, with_similarity problem_B 0]"
proof -
  have df: "problems_df loaded_state = Some corpus_file"
    and vec: "tfidf_vectorizer loaded_state = Some demo_vectorizer"
    by (simp_all add: loaded_state_def demo_state_def)
  have tt: "(\<forall>p\<in>set corpus_file. tags_text p = None) \<or> (\<forall>p\<in>set corpus_file. tags_text p \<noteq> None)"
    by (simp add: corpus_file_def)
  have r: "\<exists>p\<in>set corpus_file. rating p \<noteq> No_key"
    and s: "\<exists>p\<in>set corpus_file. solvedCount p \<noteq> No_key"
    by (simp_all add: corpus_file_def problem_A_def)
  have X: "map (\<lambda>p. float64 (case rating p of Value v \<Rightarrow> v | _ \<Rightarrow> 1500)) corpus_file
             = [float64 800, float64 1200, float64 1500]"
    by (simp add: corpus_file_def problem_A_def problem_B_def problem_C_def)
  from default_fill_stays_in_feature_matrix [OF df vec tt r s] obtain st1 df1 M R where
    run: "process_problem_features loaded_state = (Inr True, st1)"
    and st1: "problems_df st1 = Some df1" "problem_vectors st1 = Some M"
    and rat: "map rating df1 = map rating corpus_file"
    and R: "MinMaxScaler_fit_transform
              (map (\<lambda>p. float64 (case rating p of Value v \<Rightarrow> v | _ \<Rightarrow> 1500)) corpus_file) = Inr R"
    and ent: "\<forall>i<length corpus_file. scaled_rating (M ! i) = R ! i"
    by blast
  from R have "R = [0, 2573485501354569 / 4503599627370496, 1]"
    by (simp add: X demo_ratings_scaled)
  with ent have 1: "scaled_rating (M ! 2) = 1"
    by (simp add: corpus_file_def)
  from run have eq: "st1 = demo_state\<lparr>problem_vectors := Some demo_matrix\<rparr>"
    by (simp add: loaded_features)
  from st1(1) have 2: "map tags_text df1 = [Some ''math'', Some ''dp'', Some ''math dp'']"
    by (auto simp: eq demo_defs)
  have 3: "fst (get_recommendations id Fetch_raises Fetch_raises True st1 ''tourist'' 10
             None (Some 1300) None)
       = Inr [with_similarity problem_A 1, with_similarity problem_B 0]"
    by (simp add: eq demo_matrix_def) (simp add: demo_defs run_defs)
  from rat have 4: "map rating df1 = [Value 800, Value 1200, No_key]"
    by (simp add: corpus_file_def problem_A_def problem_B_def problem_C_def)
  from run st1 4 2 1 3 show ?thesis
    by (intro exI [of _ st1] exI [of _ df1] exI [of _ M] conjI)
qed

subsection \<open>The scaled columns are within the unit interval, up to rounding\<close>

lemma Min_map_float64:
  assumes "i < length df" and "\<forall>p\<in>set df. f (df ! i) \<le> f p"
  shows "Min (set (map (\<lambda>p. float64 (f p)) df)) = map (\<lambda>p. float64 (f p)) df ! i"
proof (rule Min_eqI)
  show "finite (set (map (\<lambda>p. float64 (f p)) df))" by simp
  show "map (\<lambda>p. float64 (f p)) df ! i \<in> set (map (\<lambda>p. float64 (f p)) df)"
    using assms(1) by simp
  fix y
  assume "y \<in> set (map (\<lambda>p. float64 (f p)) df)"
  then obtain p where p: "p \<in> set df" and y: "y = float64 (f p)" by auto
  from assms(2) p have "f (df ! i) \<le> f p" by blast
  then have "float64 (f (df ! i)) \<le> float64 (f p)" by (rule float64_mono)
  with assms(1) show "map (\<lambda>p. float64 (f p)) df ! i \<le> y" by (simp add: y)
qed

text \<open>A scaled column of doubles is bounded above, whether or not its range is 0.\<close>

lemma scaled_column_upper:
  assumes ne: "df \<noteq> []"
    and Y: "MinMaxScaler_fit_transform (map (\<lambda>p. float64 (f p)) df) = Inr Y"
  shows "\<forall>y\<in>set Y. y \<le> (1 + pow2 (- 51))
           * (1 + pow2 (- 52)
                * max \<bar>Min (set (map (\<lambda>p. float64 (f p)) df))\<bar>
                      \<bar>Max (set (map (\<lambda>p. float64 (f p)) df))\<bar>
                / (Max (set (map (\<lambda>p. float64 (f p)) df))
                    - Min (set (map (\<lambda>p. float64 (f p)) df))))"
proof -
  define X where "X = map (\<lambda>p. float64 (f p)) df"
  have X: "X \<noteq> []" using ne by (simp add: X_def)
  have dbl: "\<forall>x\<in>set X. r64 x = x" by (auto simp: X_def float64_double)
  note Y' = Y [folded X_def]
  have "\<forall>y\<in>set Y. y \<le> (1 + pow2 (- 51))
           * (1 + pow2 (- 52) * max \<bar>Min (set X)\<bar> \<bar>Max (set X)\<bar> / (Max (set X) - Min (set X)))"
  proof (cases "Min (set X) < Max (set X)")
    case True
    with X dbl Y' show ?thesis by (rule MinMaxScaler_upper)
  next
    case False
    from X have "Min (set X) \<le> Max (set X)" by (intro Min_le Max_in) simp_all
    with False have eq: "Max (set X) = Min (set X)" by simp
    from X Y' obtain lY: "length Y = length X"
      and zY: "\<forall>i<length X. X ! i = Min (set X) \<longrightarrow> Y ! i = 0"
      by (auto intro: MinMaxScaler_result [of X])
    have "y = 0" if "y \<in> set Y" for y
    proof -
      from that lY obtain i where i: "i < length X" and y: "y = Y ! i"
        by (auto simp: in_set_conv_nth)
      then have "X ! i \<in> set X" by (intro nth_mem)
      then have "Min (set X) \<le> X ! i" "X ! i \<le> Max (set X)" by simp_all
      with eq have "X ! i = Min (set X)" by simp
      with zY i show ?thesis by (simp add: y)
    qed
    moreover have "0 \<le> (1 + pow2 (- 51)) * (1 + pow2 (- 52) * max \<bar>Min (set X)\<bar> \<bar>Max (set X)\<bar>
                           / (Max (set X) - Min (set X)))"
      by (simp add: eq)
    ultimately show ?thesis by auto
  qed
  then show ?thesis by (simp only: X_def)
qed

text \<open>
  C9, amended. For a corpus with a vectorizer in which the ratings (after the default-fill)
  take more than one value and the solved counts take more than one value,
  \<^verbatim>\<open>process_problem_features\<close> produces the feature matrix with one row for each problem;
  every entry of the scaled rating column and of the scaled solved count column is at
  least 0 and at most \<open>(1 + 2^-51) * (1 + 2^-52 * H / (hi - lo))\<close>, where \<open>lo\<close> and \<open>hi\<close> are
  the least and the greatest value of the column as doubles and \<open>H\<close> is the greater of
  \<open>|lo|\<close> and \<open>|hi|\<close>; and the entries of the least rating and of the least solved count are
  exactly 0. The entries are in the unit interval up to the rounding of the four operations
  of the scaler.
\<close>

theorem scaled_columns_within_rounded_unit_interval:
  assumes "problems_df st = Some df" and "tfidf_vectorizer st = Some vec"
    and "(\<forall>p\<in>set df. tags_text p = None) \<or> (\<forall>p\<in>set df. tags_text p \<noteq> None)"
    and "\<exists>p\<in>set df. \<exists>q\<in>set df. fillna 1500 (rating p) \<noteq> fillna 1500 (rating q)"
    and "\<exists>p\<in>set df. \<exists>q\<in>set df. fillna 0 (solvedCount p) \<noteq> fillna 0 (solvedCount q)"
  shows "let ratings = map (\<lambda>p. float64 (fillna 1500 (rating p))) df;
             solved_counts = map (\<lambda>p. float64 (fillna 0 (solvedCount p))) df;
             bound = (\<lambda>X. (1 + pow2 (- 51))
                        * (1 + pow2 (- 52) * max \<bar>Min (set X)\<bar> \<bar>Max (set X)\<bar>
                                 / (Max (set X) - Min (set X))))
         in \<exists>st1 M. process_problem_features st = (Inr True, st1)
              \<and> problem_vectors st1 = Some M \<and> length M = length df
              \<and> (\<forall>row\<in>set M. 0 \<le> scaled_rating row \<and> scaled_rating row \<le> bound ratings
                     \<and> 0 \<le> scaled_solved row \<and> scaled_solved row \<le> bound solved_counts)
              \<and> (\<forall>i<length df.
                     (\<forall>p\<in>set df. fillna 1500 (rating (df ! i)) \<le> fillna 1500 (rating p))
                     \<longrightarrow> scaled_rating (M ! i) = 0)
              \<and> (\<forall>i<length df.
                     (\<forall>p\<in>set df. fillna 0 (solvedCount (df ! i)) \<le> fillna 0 (solvedCount p))
                     \<longrightarrow> scaled_solved (M ! i) = 0)"
proof -
  from assms(4) have r: "\<exists>p\<in>set df. rating p \<noteq> No_key"
    by (auto simp: fillna_def split: cell.splits)
  from assms(5) have s: "\<exists>p\<in>set df. solvedCount p \<noteq> No_key"
    by (auto simp: fillna_def split: cell.splits)
  from r have ne: "df \<noteq> []" by auto
  let ?X = "map (\<lambda>p. float64 (fillna 1500 (rating p))) df"
  let ?Z = "map (\<lambda>p. float64 (fillna 0 (solvedCount p))) df"
  let ?T = "map (\<lambda>p. vec (the (tags_text p))) (ensure_tags_text df)"
  let ?bound = "\<lambda>X. (1 + pow2 (- 51))
                  * (1 + pow2 (- 52) * max \<bar>Min (set X)\<bar> \<bar>Max (set X)\<bar>
                           / (Max (set X) - Min (set X)))"
  from process_problem_features_result [OF assms(1,2,3) r s] obtain R S where
    R: "MinMaxScaler_fit_transform ?X = Inr R" and S: "MinMaxScaler_fit_transform ?Z = Inr S"
    and lR: "length R = length df" and lS: "length S = length df"
    and run: "process_problem_features st
           = (Inr True, st\<lparr>problems_df := Some (ensure_tags_text df),
                           problem_vectors := Some (hstack ?T R S)\<rparr>)"
    by blast
  let ?M = "hstack ?T R S"
  from ne R obtain nR: "\<forall>y\<in>set R. 0 \<le> y"
    and zR: "\<forall>i<length ?X. ?X ! i = Min (set ?X) \<longrightarrow> R ! i = 0"
    by (auto intro: MinMaxScaler_result [of ?X])
  from ne S obtain nS: "\<forall>y\<in>set S. 0 \<le> y"
    and zS: "\<forall>i<length ?Z. ?Z ! i = Min (set ?Z) \<longrightarrow> S ! i = 0"
    by (auto intro: MinMaxScaler_result [of ?Z])
  note uR = scaled_column_upper [OF ne R]
  note uS = scaled_column_upper [OF ne S]
  have lT: "length ?T = length df"
    by (simp add: ensure_tags_text_columns)
  note h = hstack_rows [of R ?T S, unfolded lT, OF lR lS]
  have rows: "0 \<le> scaled_rating row \<and> scaled_rating row \<le> ?bound ?X
       \<and> 0 \<le> scaled_solved row \<and> scaled_solved row \<le> ?bound ?Z" if "row \<in> set ?M" for row
  proof -
    from that h(1) obtain i where i: "i < length df" and row: "row = ?M ! i"
      by (auto simp: in_set_conv_nth)
    from i lR lS have "R ! i \<in> set R" "S ! i \<in> set S" by simp_all
    with nR nS uR uS have "0 \<le> R ! i \<and> R ! i \<le> ?bound ?X \<and> 0 \<le> S ! i \<and> S ! i \<le> ?bound ?Z"
      by blast
    with i show ?thesis by (simp only: row h(2,3))
  qed
  have leastR: "scaled_rating (?M ! i) = 0"
    if i: "i < length df"
      and least: "\<forall>p\<in>set df. fillna 1500 (rating (df ! i)) \<le> fillna 1500 (rating p)" for i
  proof -
    from Min_map_float64 [of i df "\<lambda>p. fillna 1500 (rating p)", OF i least]
    have "Min (set ?X) = ?X ! i" .
    with zR i show ?thesis by (simp add: h(2))
  qed
  have leastS: "scaled_solved (?M ! i) = 0"
    if i: "i < length df"
      and least: "\<forall>p\<in>set df. fillna 0 (solvedCount (df ! i)) \<le> fillna 0 (solvedCount p)" for i
  proof -
    from Min_map_float64 [of i df "\<lambda>p. fillna 0 (solvedCount p)", OF i least]
    have "Min (set ?Z) = ?Z ! i" .
    with zS i show ?thesis by (simp add: h(3))
  qed
  have "process_problem_features st
           = (Inr True, st\<lparr>problems_df := Some (ensure_tags_text df),
                           problem_vectors := Some ?M\<rparr>)
      \<and> problem_vectors (st\<lparr>problems_df := Some (ensure_tags_text df),
                           problem_vectors := Some ?M\<rparr>) = Some ?M
      \<and> length ?M = length df"
    using run h(1) by simp
  with rows leastR leastS show ?thesis
    unfolding Let_def by blast
qed

lemma float64_demo:
  "float64 1 = 1" "float64 6 = 6" "float64 800 = 800" "float64 1200 = 1200" "float64 1500 = 1500"
  by code_simp+

text \<open>
  The three problems: ratings 800, 1200 and 1500 (the default), solved counts 1, 6 and 6.
  The two bounds are \<open>(1 + 2^-51) * (1 + 2^-52 * 1500 / 700)\<close> and
  \<open>(1 + 2^-51) * (1 + 2^-52 * 6 / 5)\<close>, both below \<open>1 + 2^-49\<close>.
\<close>

theorem scaled_columns_within_rounded_unit_interval_witness:
  "\<exists>st1 M. process_problem_features demo_state = (Inr True, st1)
       \<and> problem_vectors st1 = Some M \<and> length M = 3
       \<and> (\<forall>row\<in>set M. 0 \<le> scaled_rating row \<and> scaled_rating row \<le> 1 + pow2 (- 49)
              \<and> 0 \<le> scaled_solved row \<and> scaled_solved row \<le> 1 + pow2 (- 49))
       \<and> scaled_rating (M ! 0) = 0 \<and> scaled_solved (M ! 0) = 0"
proof -
  define df where "df = [problem_A, problem_B, problem_C]"
  have A: "problem_A \<in> set df" and B: "problem_B \<in> set df"
    by (simp_all add: df_def)
  have df: "problems_df demo_state = Some df"
    and vec: "tfidf_vectorizer demo_state = Some demo_vectorizer"
    by (simp_all add: demo_state_def df_def)
  have tt: "(\<forall>p\<in>set df. tags_text p = None) \<or> (\<forall>p\<in>set df. tags_text p \<noteq> None)"
    by (simp add: df_def problem_A_def problem_B_def problem_C_def)
  have "fillna 1500 (rating problem_A) \<noteq> fillna 1500 (rating problem_B)"
    by (simp add: problem_A_def problem_B_def fillna_def)
  with A B have r: "\<exists>p\<in>set df. \<exists>q\<in>set df. fillna 1500 (rating p) \<noteq> fillna 1500 (rating q)"
    by blast
  have "fillna 0 (solvedCount problem_A) \<noteq> fillna 0 (solvedCount problem_B)"
    by (simp add: problem_A_def problem_B_def fillna_def)
  with A B have s: "\<exists>p\<in>set df. \<exists>q\<in>set df. fillna 0 (solvedCount p) \<noteq> fillna 0 (solvedCount q)"
    by blast
  let ?bound = "\<lambda>X. (1 + pow2 (- 51))
                  * (1 + pow2 (- 52) * max \<bar>Min (set X)\<bar> \<bar>Max (set X)\<bar>
                           / (Max (set X) - Min (set X)))"
  have X: "map (\<lambda>p. float64 (fillna 1500 (rating p))) df = [800, 1200, 1500]"
    and Z: "map (\<lambda>p. float64 (fillna 0 (solvedCount p))) df = [1, 6, 6]"
    by (simp_all add: df_def problem_A_def problem_B_def problem_C_def fillna_def float64_demo)
  have bX: "?bound [800, 1200, 1500] \<le> 1 + pow2 (- 49)"
    and bZ: "?bound [1, 6, 6] \<le> 1 + pow2 (- 49)"
    by (simp_all add: pow2_def)
  from scaled_columns_within_rounded_unit_interval [OF df vec tt r s] obtain st1 M where
    run: "process_problem_features demo_state = (Inr True, st1)"
    and M: "problem_vectors st1 = Some M"
    and len: "length M = length df"
    and bd: "\<forall>row\<in>set M. 0 \<le> scaled_rating row \<and> scaled_rating row \<le> ?bound [800, 1200, 1500]
               \<and> 0 \<le> scaled_solved row \<and> scaled_solved row \<le> ?bound [1, 6, 6]"
    and zr: "\<forall>i<length df. (\<forall>p\<in>set df. fillna 1500 (rating (df ! i)) \<le> fillna 1500 (rating p))
               \<longrightarrow> scaled_rating (M ! i) = 0"
    and zs: "\<forall>i<length df. (\<forall>p\<in>set df. fillna 0 (solvedCount (df ! i)) \<le> fillna 0 (solvedCount p))
               \<longrightarrow> scaled_solved (M ! i) = 0"
    unfolding Let_def X Z by blast
  have l: "0 < length df" and l3: "length df = 3"
    by (simp_all add: df_def)
  have "\<forall>p\<in>set df. fillna 1500 (rating (df ! 0)) \<le> fillna 1500 (rating p)"
    by (simp add: df_def problem_A_def problem_B_def problem_C_def fillna_def)
  with zr l have 1: "scaled_rating (M ! 0) = 0" by blast
  have "\<forall>p\<in>set df. fillna 0 (solvedCount (df ! 0)) \<le> fillna 0 (solvedCount p)"
    by (simp add: df_def problem_A_def problem_B_def problem_C_def fillna_def)
  with zs l have 2: "scaled_solved (M ! 0) = 0" by blast
  have 3: "\<forall>row\<in>set M. 0 \<le> scaled_rating row \<and> scaled_rating row \<le> 1 + pow2 (- 49)
              \<and> 0 \<le> scaled_solved row \<and> scaled_solved row \<le> 1 + pow2 (- 49)"
  proof
    fix row
    assume "row \<in> set M"
    with bd have "0 \<le> scaled_rating row \<and> scaled_rating row \<le> ?bound [800, 1200, 1500]
               \<and> 0 \<le> scaled_solved row \<and> scaled_solved row \<le> ?bound [1, 6, 6]" by blast
    with bX bZ show "0 \<le> scaled_rating row \<and> scaled_rating row \<le> 1 + pow2 (- 49)
              \<and> 0 \<le> scaled_solved row \<and> scaled_solved row \<le> 1 + pow2 (- 49)"
      by linarith
  qed
  from run M len l3 3 1 2 show ?thesis
    by (intro exI [of _ st1] exI [of _ M] conjI) simp_all
qed

text \<open>
  C9 as stated fails: the ratings of the three problems are 800, 1200 and 1500, their
  solved counts 1, 6 and 6, and the solved count 6 is scaled to \<open>1 + 2^-52\<close>, the double
  1.0000000000000002: \<open>1/5\<close> rounds up, \<open>6 * 0.2\<close> rounds to 1.2000000000000002, and
  subtracting 0.2 rounds up again.
\<close>

theorem scaled_solved_count_exceeds_one:
  "process_problem_features demo_state
     = (Inr True, demo_state\<lparr>problem_vectors := Some demo_matrix\<rparr>)
   \<and> map (\<lambda>p. fillna 1500 (rating p)) (the (problems_df demo_state)) = [800, 1200, 1500]
   \<and> map (\<lambda>p. fillna 0 (solvedCount p)) (the (problems_df demo_state)) = [1, 6, 6]
   \<and> scaled_solved (demo_matrix ! 1) = 4503599627370497 / 4503599627370496
   \<and> 1 < scaled_solved (demo_matrix ! 1)"
  by (simp add: demo_features) (simp add: demo_defs fillna_def demo_matrix_def scaled_solved_def)

text \<open>
  One unit in the last place is not the bound for every column: the values 763 and 768 are
  scaled to 0 and \<open>1 + 2^-45\<close>, the double 1.0000000000000284, which is 128 units above 1.
  The bound of the theorem for this column is \<open>(1 + 2^-51) * (1 + 2^-52 * 768 / 5)\<close>, about
  156 units above 1: the excess grows with the magnitude of the values against their range.
\<close>

lemma slack_grows_with_magnitude:
  "MinMaxScaler_fit_transform [float64 763, float64 768] = Inr [0, 1 + pow2 (- 45)]"
  by code_simp

subsection \<open>Constant columns\<close>

text \<open>
  When at least one problem carries a rating and at least one a solved count, both columns
  exist, the matrix is produced, and a column whose values are all the same after the
  default-fill is scaled to zeros: the range 0 is replaced by 1 and nothing is divided
  by zero.
\<close>

lemma constant_columns_scale_to_zero:
  assumes "problems_df st = Some df" and "tfidf_vectorizer st = Some vec"
    and "(\<forall>p\<in>set df. tags_text p = None) \<or> (\<forall>p\<in>set df. tags_text p \<noteq> None)"
    and "\<exists>p\<in>set df. rating p \<noteq> No_key" and "\<exists>p\<in>set df. solvedCount p \<noteq> No_key"
  shows "\<exists>st1 M. process_problem_features st = (Inr True, st1)
           \<and> problem_vectors st1 = Some M \<and> length M = length df
           \<and> ((\<forall>p\<in>set df. \<forall>q\<in>set df. fillna 1500 (rating p) = fillna 1500 (rating q))
                \<longrightarrow> (\<forall>row\<in>set M. scaled_rating row = 0))
           \<and> ((\<forall>p\<in>set df. \<forall>q\<in>set df. fillna 0 (solvedCount p) = fillna 0 (solvedCount q))
                \<longrightarrow> (\<forall>row\<in>set M. scaled_solved row = 0))"
proof -
  from assms(4) have ne: "df \<noteq> []" by auto
  let ?X = "map (\<lambda>p. float64 (fillna 1500 (rating p))) df"
  let ?Z = "map (\<lambda>p. float64 (fillna 0 (solvedCount p))) df"
  let ?T = "map (\<lambda>p. vec (the (tags_text p))) (ensure_tags_text df)"
  from process_problem_features_result [OF assms] obtain R S where
    R: "MinMaxScaler_fit_transform ?X = Inr R" and S: "MinMaxScaler_fit_transform ?Z = Inr S"
    and lR: "length R = length df" and lS: "length S = length df"
    and run: "process_problem_features st
           = (Inr True, st\<lparr>problems_df := Some (ensure_tags_text df),
                           problem_vectors := Some (hstack ?T R S)\<rparr>)"
    by blast
  let ?M = "hstack ?T R S"
  from ne R obtain zR: "\<forall>i<length ?X. ?X ! i = Min (set ?X) \<longrightarrow> R ! i = 0"
    by (auto intro: MinMaxScaler_result [of ?X])
  from ne S obtain zS: "\<forall>i<length ?Z. ?Z ! i = Min (set ?Z) \<longrightarrow> S ! i = 0"
    by (auto intro: MinMaxScaler_result [of ?Z])
  have lT: "length ?T = length df"
    by (simp add: ensure_tags_text_columns)
  note h = hstack_rows [of R ?T S, unfolded lT, OF lR lS]
  have cR: "scaled_rating row = 0"
    if same: "\<forall>p\<in>set df. \<forall>q\<in>set df. fillna 1500 (rating p) = fillna 1500 (rating q)"
      and row: "row \<in> set ?M" for row
  proof -
    from row h(1) obtain i where i: "i < length df" and r: "row = ?M ! i"
      by (auto simp: in_set_conv_nth)
    from i have "df ! i \<in> set df" by simp
    with same have "\<forall>p\<in>set df. fillna 1500 (rating (df ! i)) \<le> fillna 1500 (rating p)"
      by (metis order_refl)
    from Min_map_float64 [of i df "\<lambda>p. fillna 1500 (rating p)", OF i this]
    have "Min (set ?X) = ?X ! i" .
    with zR i show ?thesis by (simp add: r h(2))
  qed
  have cS: "scaled_solved row = 0"
    if same: "\<forall>p\<in>set df. \<forall>q\<in>set df. fillna 0 (solvedCount p) = fillna 0 (solvedCount q)"
      and row: "row \<in> set ?M" for row
  proof -
    from row h(1) obtain i where i: "i < length df" and r: "row = ?M ! i"
      by (auto simp: in_set_conv_nth)
    from i have "df ! i \<in> set df" by simp
    with same have "\<forall>p\<in>set df. fillna 0 (solvedCount (df ! i)) \<le> fillna 0 (solvedCount p)"
      by (metis order_refl)
    from Min_map_float64 [of i df "\<lambda>p. fillna 0 (solvedCount p)", OF i this]
    have "Min (set ?Z) = ?Z ! i" .
    with zS i show ?thesis by (simp add: r h(3))
  qed
  have "process_problem_features st
           = (Inr True, st\<lparr>problems_df := Some (ensure_tags_text df),
                           problem_vectors := Some ?M\<rparr>)
      \<and> problem_vectors (st\<lparr>problems_df := Some (ensure_tags_text df),
                           problem_vectors := Some ?M\<rparr>) = Some ?M
      \<and> length ?M = length df"
    using run h(1) by simp
  with cR cS show ?thesis by blast
qed

text \<open>
  C10 fails on a corpus in which no problem carries a rating. After the default-fill every
  rating would be 1500, but the DataFrame has no \<^verbatim>\<open>rating\<close> column, and
  \<^verbatim>\<open>process_problem_features\<close> raises \<^verbatim>\<open>KeyError\<close> instead of producing a matrix
  with a column of zeros.
\<close>

theorem unrated_corpus_raises:
  "process_problem_features unrated_state = (Inl KeyError, unrated_state)
   \<and> map (\<lambda>p. fillna 1500 (rating p)) (the (problems_df unrated_state)) = [1500]"
  by (simp add: process_problem_features_def unrated_state_def problem_C_def ensure_tags_text_def
      column_def fillna_def)

subsection \<open>Cosine similarity\<close>

lemma sum_squares_zero: "(\<Sum>x\<leftarrow>v. x * x) = 0 \<Longrightarrow> \<forall>x\<in>set v. x = (0::real)"
proof (induction v)
  case Nil
  then show ?case by simp
next
  case (Cons a v)
  have "0 \<le> (\<Sum>x\<leftarrow>v. x * x)"
    by (rule sum_list_nonneg) auto
  moreover have "0 \<le> a * a"
    by simp
  ultimately have "a * a = 0" and "(\<Sum>x\<leftarrow>v. x * x) = 0"
    using Cons.prems by (auto simp: add_nonneg_eq_0_iff)
  with Cons.IH show ?case by simp
qed

lemma row_norm_zero: "row_norm v = 0 \<Longrightarrow> \<forall>x\<in>set v. x = 0"
  by (simp add: row_norm_def sum_squares_zero)

lemma dot_zero_left: "\<forall>x\<in>set u. x = 0 \<Longrightarrow> dot u v = 0"
proof (induction u arbitrary: v)
  case Nil
  then show ?case by (simp add: dot_def)
next
  case (Cons a u)
  then show ?case by (cases v) (auto simp: dot_def)
qed

lemma dot_zero_right: "\<forall>x\<in>set v. x = 0 \<Longrightarrow> dot u v = 0"
proof (induction u arbitrary: v)
  case Nil
  then show ?case by (simp add: dot_def)
next
  case (Cons a u)
  then show ?case by (cases v) (auto simp: dot_def)
qed

text \<open>The score of two rows: their dot product over the product of their guarded norms.\<close>

lemma dot_divide: "dot (map (\<lambda>x. x / a) u) (map (\<lambda>y. y / b) v) = dot u v / (a * b)"
proof (induction u arbitrary: v)
  case Nil
  then show ?case by (simp add: dot_def)
next
  case (Cons x u)
  show ?case
  proof (cases v)
    case Nil
    then show ?thesis by (simp add: dot_def)
  next
    case (Cons y v')
    with Cons.IH [of v'] show ?thesis
      by (simp add: dot_def add_divide_distrib)
  qed
qed

lemma dot_normalize_row:
  "dot (normalize_row u) (normalize_row v)
     = dot u v / ((if row_norm u < 10 * pow2 (- 52) then 1 else row_norm u)
                  * (if row_norm v < 10 * pow2 (- 52) then 1 else row_norm v))"
  unfolding normalize_row_def Let_def handle_zeros_in_scale_def by (rule dot_divide)

text \<open>
  The guard can be seen on a row of norm \<open>2^-60\<close>: it is divided by 1 and not by its norm,
  and its score with a unit vector of its direction is \<open>2^-60\<close>, where the cosine is 1.
\<close>

lemma tiny_norm_is_replaced_by_one:
  "row_norm [pow2 (- 60)] = pow2 (- 60)"
  "normalize_row [pow2 (- 60)] = [pow2 (- 60)]"
  "cosine_similarity [1] (Some [[pow2 (- 60)]]) = Inr [pow2 (- 60)]"
proof -
  show n: "row_norm [pow2 (- 60)] = pow2 (- 60)"
    by (simp add: row_norm_def)
  have lt: "pow2 (- 60) < 10 * pow2 (- 52)"
    by (simp add: pow2_def)
  then show r: "normalize_row [pow2 (- 60)] = [pow2 (- 60)]"
    by (simp add: normalize_row_def handle_zeros_in_scale_def n)
  have "\<not> (1::real) < 10 * pow2 (- 52)"
    by (simp add: pow2_def)
  then have "normalize_row [1] = [1]"
    by (simp add: normalize_row_def handle_zeros_in_scale_def row_norm_def)
  with r show "cosine_similarity [1] (Some [[pow2 (- 60)]]) = Inr [pow2 (- 60)]"
    by (simp add: cosine_similarity_def dot_def)
qed

text \<open>The width of the vectors that the code builds.\<close>

lemma np_mean_axis0_length: "M \<noteq> [] \<Longrightarrow> length (np_mean_axis0 M) = length (hd M)"
  by (cases M) (simp_all add: np_mean_axis0_def)

lemma user_vector_of_width:
  assumes M: "problem_vectors st = Some M" "M \<noteq> []" "\<forall>row\<in>set M. length row = d"
    and v: "user_vector_of st solved = Inr v"
  shows "length v = d"
proof -
  from M have whole: "length (np_mean_axis0 M) = d"
    by (simp add: np_mean_axis0_length)
  have part: "length (np_mean_axis0 (map (\<lambda>i. M ! i) idx)) = d"
    if "idx \<noteq> []" "\<not> list_ex (\<lambda>i. length M \<le> i) idx" for idx
  proof -
    from that obtain i rest where idx: "idx = i # rest" by (cases idx) auto
    with that(2) have "i < length M" by simp
    then have "M ! i \<in> set M" by simp
    with M(3) have "length (M ! i) = d" by blast
    then show ?thesis by (simp add: idx np_mean_axis0_def)
  qed
  from v M(1) whole part show ?thesis
    by (auto simp: user_vector_of_def default_vector_def Let_def
        split: if_splits option.splits)
qed

lemma create_user_vector_width:
  assumes M: "problem_vectors st = Some M" "M \<noteq> []" "\<forall>row\<in>set M. length row = d"
    and run: "create_user_vector reply disk_ok st h = (Some v, st1)"
  shows "length v = d" and "problem_vectors st1 = Some M" and "problems_df st1 = problems_df st"
proof -
  from run obtain solved where v: "user_vector_of st solved = Inr v"
    and st1: "st1 = st\<lparr>user_vectors := (user_vectors st)(h \<mapsto> Cached_list v),
                        user_vectors_file := Some ((user_vectors st)(h \<mapsto> Cached_list v))\<rparr>"
    by (auto simp: create_user_vector_def Let_def
        split: fetched.splits if_splits sum.splits)
  from user_vector_of_width [OF M v] show "length v = d" .
  from st1 M(1) show "problem_vectors st1 = Some M" and "problems_df st1 = problems_df st"
    by simp_all
qed

lemma MinMaxScaler_length: "MinMaxScaler_fit_transform X = Inr Y \<Longrightarrow> length Y = length X"
  by (auto simp: MinMaxScaler_fit_transform_def Let_def split: if_splits)

lemma column_length: "column key df = Inr c \<Longrightarrow> length c = length df"
  by (auto simp: column_def split: if_splits)

text \<open>
  The matrix that \<^verbatim>\<open>process_problem_features\<close> produces has a row for each problem of the
  corpus, at least one, and its rows have the width of the tag vectors plus 2.
\<close>

lemma process_problem_features_shape:
  assumes run: "process_problem_features st0 = (Inr True, stp)"
    and vec: "tfidf_vectorizer st0 = Some vec" and w: "\<forall>t. length (vec t) = w"
  obtains M df where "problem_vectors stp = Some M" and "problems_df stp = Some df"
    and "length M = length df" and "M \<noteq> []" and "\<forall>row\<in>set M. length row = w + 2"
proof -
  from run vec obtain df0 rc R sc S where df0: "problems_df st0 = Some df0" "df0 \<noteq> []"
    and rc: "column rating (ensure_tags_text df0) = Inr rc"
    and R: "MinMaxScaler_fit_transform (map (\<lambda>v. float64 (fillna 1500 v)) rc) = Inr R"
    and sc: "column solvedCount (ensure_tags_text df0) = Inr sc"
    and S: "MinMaxScaler_fit_transform (map (\<lambda>v. float64 (fillna 0 v)) sc) = Inr S"
    and stp: "stp = st0\<lparr>problems_df := Some (ensure_tags_text df0),
                 problem_vectors :=
                   Some (hstack (map (\<lambda>p. vec (the (tags_text p))) (ensure_tags_text df0)) R S)\<rparr>"
    by (auto simp: process_problem_features_def Let_def
        split: option.splits if_splits sum.splits)
  let ?df = "ensure_tags_text df0"
  let ?T = "map (\<lambda>p. vec (the (tags_text p))) ?df"
  have lT: "length ?T = length ?df" by simp
  from MinMaxScaler_length [OF R] column_length [OF rc] have lR: "length R = length ?T" by simp
  from MinMaxScaler_length [OF S] column_length [OF sc] have lS: "length S = length ?T" by simp
  note h = hstack_rows [OF lR lS]
  have len: "length (hstack ?T R S) = length ?df" using h(1) by simp
  moreover have "hstack ?T R S \<noteq> []"
    using len df0(2) by (auto simp: ensure_tags_text_columns)
  moreover have "\<forall>row\<in>set (hstack ?T R S). length row = w + 2"
  proof
    fix row
    assume "row \<in> set (hstack ?T R S)"
    with h(1) obtain i where i: "i < length ?T" and row: "row = hstack ?T R S ! i"
      by (auto simp: in_set_conv_nth)
    from h(4) [OF i] w i show "length row = w + 2" by (simp add: row)
  qed
  ultimately show ?thesis
    using stp by (intro that [of "hstack ?T R S" ?df]) simp_all
qed

lemma filter_and_rank_no_ValueError:
  "filter_and_rank tie hr solved n mn mx tg df0 \<noteq> Inl ValueError"
  by (simp add: filter_and_rank_def Let_def)

text \<open>
  C8 as stated fails: a list cached for the user is used as it is, and one that does not
  have the width of the feature matrix makes \<^verbatim>\<open>cosine_similarity\<close> raise \<^verbatim>\<open>ValueError\<close>,
  which reaches the caller of \<^verbatim>\<open>get_recommendations\<close>. The matrix of the three problems
  has three columns, the cached list two numbers.
\<close>

theorem stale_cached_vector_raises:
  "process_problem_features demo_state
     = (Inr True, demo_state\<lparr>problem_vectors := Some demo_matrix\<rparr>)
   \<and> problem_vectors stale_state = Some demo_matrix
   \<and> problems_df stale_state = problems_df demo_state
   \<and> cached_vector stale_state ''tourist'' = Some [1, 0]
   \<and> get_recommendations id Fetch_raises Fetch_raises True stale_state ''tourist'' 10
         None None None
       = (Inl ValueError, stale_state)"
  by (simp add: demo_features)
    (simp add: stale_state_def demo_state_def demo_matrix_def get_recommendations_def
      get_or_create_user_vector_def cached_vector_def cosine_similarity_def)

text \<open>
  C8, amended. Let the feature matrix be one that \<^verbatim>\<open>process_problem_features\<close> has produced
  (with a vectorizer whose vectors have one width \<open>w\<close>), for the corpus of the state, and let
  the list cached for the user, if there is one, have the width \<open>w + 2\<close> of that matrix. Then
  for the user vector that \<^verbatim>\<open>get_recommendations\<close> takes, cached or just created,
  \<^verbatim>\<open>cosine_similarity\<close> raises nothing and returns one score for each row: the dot product
  of the vector and the row, divided by the product of their norms, a norm below ten machine
  epsilons being replaced by 1, so that the divisor is positive. The score of a row of norm
  zero is 0, and every score is 0 when the user vector has norm zero. \<^verbatim>\<open>get_recommendations\<close> does not raise
  \<^verbatim>\<open>ValueError\<close>.
\<close>

theorem similarity_of_fitting_vector_never_raises:
  assumes "process_problem_features st0 = (Inr True, stp)"
    and "tfidf_vectorizer st0 = Some vec" and "\<forall>t. length (vec t) = w"
    and "problem_vectors st = problem_vectors stp" and "problems_df st = problems_df stp"
    and "\<forall>l. cached_vector st user_handle = Some l \<longrightarrow> length l = w + 2"
  shows "(\<forall>user_vector st1.
            get_or_create_user_vector reply_vector disk_ok st user_handle = (Some user_vector, st1)
            \<longrightarrow> (\<exists>M scores. problem_vectors st1 = Some M
                   \<and> cosine_similarity user_vector (Some M) = Inr scores
                   \<and> length scores = length M
                   \<and> (\<forall>i<length M.
                         0 < (if row_norm user_vector < 10 * pow2 (- 52) then 1
                              else row_norm user_vector)
                             * (if row_norm (M ! i) < 10 * pow2 (- 52) then 1
                                else row_norm (M ! i))
                       \<and> scores ! i
                           = dot user_vector (M ! i)
                             / ((if row_norm user_vector < 10 * pow2 (- 52) then 1
                                 else row_norm user_vector)
                                * (if row_norm (M ! i) < 10 * pow2 (- 52) then 1
                                   else row_norm (M ! i))))
                   \<and> (row_norm user_vector = 0 \<longrightarrow> (\<forall>s\<in>set scores. s = 0))
                   \<and> (\<forall>i<length M. row_norm (M ! i) = 0 \<longrightarrow> scores ! i = 0)))
       \<and> fst (get_recommendations tie reply_vector reply disk_ok st user_handle n mn mx tg)
           \<noteq> Inl ValueError"
proof -
  from process_problem_features_shape [OF assms(1,2,3)] obtain M df where
    Mp: "problem_vectors stp = Some M" and dfp: "problems_df stp = Some df"
    and len: "length M = length df" and ne: "M \<noteq> []"
    and wd: "\<forall>row\<in>set M. length row = w + 2"
    by blast
  from Mp assms(4) have M: "problem_vectors st = Some M" by simp
  from dfp assms(5) have df: "problems_df st = Some df" by simp
  have taken: "length v = w + 2 \<and> problem_vectors st1 = Some M \<and> problems_df st1 = Some df"
    if "get_or_create_user_vector reply_vector disk_ok st user_handle = (Some v, st1)" for v st1
  proof (cases "cached_vector st user_handle")
    case None
    with that have "create_user_vector reply_vector disk_ok st user_handle = (Some v, st1)"
      by (simp add: get_or_create_user_vector_def)
    from create_user_vector_width [OF M ne wd this] df show ?thesis by simp
  next
    case (Some l)
    with that have "v = l" "st1 = st" by (simp_all add: get_or_create_user_vector_def)
    with Some assms(6) M df show ?thesis by simp
  qed
  have scores: "cosine_similarity v (Some M)
        = Inr (map (\<lambda>row. dot (normalize_row v) (normalize_row row)) M)"
    if "length v = w + 2" for v
  proof -
    from that have "v \<noteq> []" by auto
    with that wd ne show ?thesis
      by (simp add: cosine_similarity_def list_ex_iff)
  qed
  have first: "\<exists>M scores. problem_vectors st1 = Some M
                   \<and> cosine_similarity v (Some M) = Inr scores
                   \<and> length scores = length M
                   \<and> (\<forall>i<length M.
                         0 < (if row_norm v < 10 * pow2 (- 52) then 1 else row_norm v)
                             * (if row_norm (M ! i) < 10 * pow2 (- 52) then 1
                                else row_norm (M ! i))
                       \<and> scores ! i
                           = dot v (M ! i)
                             / ((if row_norm v < 10 * pow2 (- 52) then 1 else row_norm v)
                                * (if row_norm (M ! i) < 10 * pow2 (- 52) then 1
                                   else row_norm (M ! i))))
                   \<and> (row_norm v = 0 \<longrightarrow> (\<forall>s\<in>set scores. s = 0))
                   \<and> (\<forall>i<length M. row_norm (M ! i) = 0 \<longrightarrow> scores ! i = 0)"
    if run: "get_or_create_user_vector reply_vector disk_ok st user_handle = (Some v, st1)"
    for v st1
  proof -
    let ?scores = "map (\<lambda>row. dot (normalize_row v) (normalize_row row)) M"
    note t = taken [OF run]
    from t have c: "cosine_similarity v (Some M) = Inr ?scores" by (simp add: scores)
    have f: "?scores ! i
               = dot v (M ! i)
                 / ((if row_norm v < 10 * pow2 (- 52) then 1 else row_norm v)
                    * (if row_norm (M ! i) < 10 * pow2 (- 52) then 1 else row_norm (M ! i)))"
      if "i < length M" for i
      using that by (simp add: dot_normalize_row)
    have g: "0 < (if row_norm a < 10 * pow2 (- 52) then 1 else row_norm a)
                 * (if row_norm b < 10 * pow2 (- 52) then 1 else row_norm b)" for a b
      using handle_zeros_in_scale_pos [of "row_norm a"] handle_zeros_in_scale_pos [of "row_norm b"]
      unfolding handle_zeros_in_scale_def by (rule mult_pos_pos)
    have zu: "\<forall>s\<in>set ?scores. s = 0" if "row_norm v = 0"
      using dot_zero_left [OF row_norm_zero [OF that]] by (simp add: dot_normalize_row)
    have zr: "?scores ! i = 0" if "i < length M" "row_norm (M ! i) = 0" for i
      using dot_zero_right [OF row_norm_zero [OF that(2)]] that(1)
      by (simp add: dot_normalize_row)
    from t c f g zu zr show ?thesis
      by (intro exI [of _ M] exI [of _ ?scores]) simp
  qed
  have second: "fst (get_recommendations tie reply_vector reply disk_ok st user_handle n mn mx tg)
           \<noteq> Inl ValueError"
  proof (cases "get_or_create_user_vector reply_vector disk_ok st user_handle")
    case (Pair vector st1)
    show ?thesis
    proof (cases vector)
      case None
      with Pair show ?thesis by (simp add: get_recommendations_def)
    next
      case (Some v)
      note t = taken [OF Pair [unfolded Some]]
      from t have c: "cosine_similarity v (problem_vectors st1)
        = Inr (map (\<lambda>row. dot (normalize_row v) (normalize_row row)) M)"
        by (simp add: scores)
      from Pair Some t c len show ?thesis
        by (simp add: get_recommendations_def filter_and_rank_no_ValueError)
    qed
  qed
  from first second show ?thesis by blast
qed

text \<open>
  A vector of zeros cached for the user: every score is 0, and nothing is divided by zero.
\<close>

theorem similarity_of_fitting_vector_never_raises_witness:
  "get_or_create_user_vector Fetch_raises True zero_vector_state ''tourist''
     = (Some [0, 0, 0], zero_vector_state)
   \<and> row_norm [0, 0, 0] = 0
   \<and> (\<exists>scores. cosine_similarity [0, 0, 0] (Some demo_matrix) = Inr scores
         \<and> length scores = 3 \<and> (\<forall>s\<in>set scores. s = 0))
   \<and> fst (get_recommendations id Fetch_raises Fetch_raises True zero_vector_state ''tourist'' 10
            None None None) \<noteq> Inl ValueError"
proof -
  have vec: "tfidf_vectorizer demo_state = Some demo_vectorizer"
    by (simp add: demo_state_def)
  have w: "\<forall>t. length (demo_vectorizer t) = 1"
    by (simp add: demo_vectorizer_def)
  have pv: "problem_vectors zero_vector_state
              = problem_vectors (demo_state\<lparr>problem_vectors := Some demo_matrix\<rparr>)"
    and df: "problems_df zero_vector_state
              = problems_df (demo_state\<lparr>problem_vectors := Some demo_matrix\<rparr>)"
    by (simp_all add: zero_vector_state_def)
  have c: "\<forall>l. cached_vector zero_vector_state ''tourist'' = Some l \<longrightarrow> length l = 1 + 2"
    by (simp add: cached_vector_def zero_vector_state_def)
  have g: "get_or_create_user_vector Fetch_raises True zero_vector_state ''tourist''
     = (Some [0, 0, 0], zero_vector_state)"
    by (simp add: get_or_create_user_vector_def cached_vector_def zero_vector_state_def)
  have n: "row_norm [0, 0, 0] = 0"
    by (simp add: row_norm_def)
  have M: "problem_vectors zero_vector_state = Some demo_matrix"
    by (simp add: zero_vector_state_def)
  have l: "length demo_matrix = 3"
    by (simp add: demo_matrix_def)
  note inst = similarity_of_fitting_vector_never_raises [OF demo_features vec w pv df c,
      of Fetch_raises True id Fetch_raises 10 None None None]
  from inst g obtain M' scores where "problem_vectors zero_vector_state = Some M'"
    and "cosine_similarity [0, 0, 0] (Some M') = Inr scores" and "length scores = length M'"
    and "row_norm [0, 0, 0] = 0 \<longrightarrow> (\<forall>s\<in>set scores. s = 0)"
    by blast
  with M l n have "\<exists>scores. cosine_similarity [0, 0, 0] (Some demo_matrix) = Inr scores
         \<and> length scores = 3 \<and> (\<forall>s\<in>set scores. s = 0)"
    by auto
  with g n inst show ?thesis by blast
qed

end
